theory Spec2Isabelle
  imports Complex_Main "HOL-Library.Word"
begin

unbundle bit_operations_syntax

section \<open>The session data store of learning-timer (src/utils/enhancedStorage.ts)\<close>

text \<open>
  The development embeds the class \<open>EnhancedStorageManager\<close> and the exported helper
  \<open>getSessionStats\<close>. What the browser provides (\<open>JSON\<close>, \<open>Date\<close>, \<open>localStorage\<close>,
  \<open>console\<close>, \<open>parseFloat\<close>, \<open>Math.random\<close>, Papa Parse) is not code of the repository: it
  is modelled by the record \<open>host\<close> of functions and by the record \<open>world\<close> of mutable state,
  and every function of the class takes the host and passes the world along.
\<close>

subsection \<open>JavaScript values\<close>

text \<open>
  A number is a finite value or one of the three special values. A \<open>Date\<close> holds a time
  value in milliseconds since the epoch, or \<open>NaN\<close> for an invalid date (here \<open>None\<close>).
\<close>

datatype jsnum = Num rat | NaN | PosInf | NegInf

type_synonym date = "int option"

datatype jsval =
    JUndefined
  | JNull
  | JBool bool
  | JNum jsnum
  | JStr string
  | JDate date
  | JArr "jsval list"
  | JObj "(string \<times> jsval) list"

text \<open>An object is the list of its own properties, in insertion order.\<close>

type_synonym obj = "(string \<times> jsval) list"

text \<open>A thrown exception: the \<open>name\<close> and the \<open>message\<close> of a JavaScript error object.\<close>

datatype exn = Exn (name: string) (message: string)

definition newError :: "string \<Rightarrow> exn" where
  "newError msg = Exn ''Error'' msg"

fun typeof :: "jsval \<Rightarrow> string" where
  "typeof JUndefined = ''undefined''"
| "typeof JNull = ''object''"
| "typeof (JBool b) = ''boolean''"
| "typeof (JNum n) = ''number''"
| "typeof (JStr s) = ''string''"
| "typeof (JDate d) = ''object''"
| "typeof (JArr vs) = ''object''"
| "typeof (JObj kvs) = ''object''"

text \<open>\<open>ToBoolean\<close>: what \<open>if (v)\<close>, \<open>!v\<close> and \<open>v || w\<close> test.\<close>

fun truthy :: "jsval \<Rightarrow> bool" where
  "truthy JUndefined = False"
| "truthy JNull = False"
| "truthy (JBool b) = b"
| "truthy (JNum n) = (n \<noteq> Num 0 \<and> n \<noteq> NaN)"
| "truthy (JStr s) = (s \<noteq> [])"
| "truthy (JDate d) = True"
| "truthy (JArr vs) = True"
| "truthy (JObj kvs) = True"

text \<open>\<open>n <= 0\<close> on numbers: every comparison with \<open>NaN\<close> is false.\<close>

fun leqZero :: "jsnum \<Rightarrow> bool" where
  "leqZero (Num r) = (r \<le> 0)"
| "leqZero NaN = False"
| "leqZero PosInf = False"
| "leqZero NegInf = True"

text \<open>
  Reading the property \<open>k\<close> of an object: \<open>undefined\<close> when the object has no such
  property.
\<close>

definition field :: "obj \<Rightarrow> string \<Rightarrow> jsval" where
  "field ob k = (case map_of ob k of None \<Rightarrow> JUndefined | Some v \<Rightarrow> v)"

text \<open>
  Reading a property of any value, as \<open>data.metadata\<close> does on the result of
  \<open>JSON.parse\<close>: a \<open>TypeError\<close> (here \<open>None\<close>) on \<open>null\<close> and \<open>undefined\<close>; values that
  are not plain objects have none of the properties this module reads.
\<close>

fun getProp :: "jsval \<Rightarrow> string \<Rightarrow> jsval option" where
  "getProp JUndefined k = None"
| "getProp JNull k = None"
| "getProp (JObj kvs) k = Some (field kvs k)"
| "getProp v k = Some JUndefined"

text \<open>
  Writing a property in an object literal after a spread, \<open>{...session, k: v}\<close>: an
  existing property keeps its place, a new one goes last.
\<close>

fun setProp :: "obj \<Rightarrow> string \<Rightarrow> jsval \<Rightarrow> obj" where
  "setProp [] k v = [(k, v)]"
| "setProp ((k', v') # kvs) k v = (if k' = k then (k, v) # kvs else (k', v') # setProp kvs k v)"

subsection \<open>Strings\<close>

text \<open>
  A string is the list of its code units; the model covers the code units below 256
  (Latin-1). \<open>trim\<close> removes the white space and line terminators of that range at both
  ends, \<open>toLowerCase\<close> maps \<open>A\<close>..\<open>Z\<close> and the accented capitals 0xC0..0xDE (but the
  multiplication sign 0xD7) to their lower-case letters.
\<close>

definition isWhiteSpace :: "char \<Rightarrow> bool" where
  "isWhiteSpace c = ((of_char c :: nat) \<in> {9, 10, 11, 12, 13, 32, 160})"

definition trim :: "string \<Rightarrow> string" where
  "trim s = rev (dropWhile isWhiteSpace (rev (dropWhile isWhiteSpace s)))"

definition lowerChar :: "char \<Rightarrow> char" where
  "lowerChar c =
     (let n = (of_char c :: nat) in
      if (65 \<le> n \<and> n \<le> 90) \<or> (192 \<le> n \<and> n \<le> 222 \<and> n \<noteq> 215) then char_of (n + 32) else c)"

definition toLowerCase :: "string \<Rightarrow> string" where
  "toLowerCase s = map lowerChar s"

text \<open>\<open>Array.prototype.join\<close> on strings.\<close>

fun join :: "string \<Rightarrow> string list \<Rightarrow> string" where
  "join sep [] = []"
| "join sep [x] = x"
| "join sep (x # y # ys) = x @ sep @ join sep (y # ys)"

text \<open>
  \<open>Number.prototype.toString(radix)\<close> on a natural number, digits \<open>0\<close>..\<open>9\<close> then
  \<open>a\<close>..\<open>z\<close>; \<open>decimal\<close> is what a template literal prints for an index.
\<close>

definition digitChar :: "nat \<Rightarrow> char" where
  "digitChar d = (if d < 10 then char_of (48 + d) else char_of (87 + d))"

fun toStringRadix :: "nat \<Rightarrow> nat \<Rightarrow> string" where
  "toStringRadix b n =
     (if b < 2 \<or> n < b then [digitChar n] else toStringRadix b (n div b) @ [digitChar (n mod b)])"

definition decimal :: "nat \<Rightarrow> string" where
  "decimal n = toStringRadix 10 n"

subsection \<open>The host\<close>

text \<open>
  The functions of the JavaScript runtime that the module calls and whose results the
  model does not compute:
  \<^item> \<open>serialize\<close>: the JSON text of a JSON value (the printing half of \<open>JSON.stringify\<close>);
  \<^item> \<open>parseJSON\<close>: \<open>JSON.parse\<close>, \<open>None\<close> when it throws a \<open>SyntaxError\<close>;
  \<^item> \<open>toISOString\<close>: \<open>Date.prototype.toISOString\<close> of a valid time value;
  \<^item> \<open>dateParse\<close>: the time value \<open>new Date(s)\<close> reads from a string;
  \<^item> \<open>toPrimitive\<close>: the string an array or an object converts to inside \<open>new Date(v)\<close>
    (the model does not cover an object whose conversion throws);
  \<^item> \<open>parseFloat\<close>: the global \<open>parseFloat\<close> on a string;
  \<^item> \<open>now\<close>: the time value of \<open>new Date()\<close>;
  \<^item> \<open>startOfDay\<close>: the time value of \<open>new Date(y, m, d)\<close> for the local calendar day of
    an instant (local midnight);
  \<^item> \<open>freshId\<close>: the \<open>n\<close>-th string that \<open>generateId\<close> builds from \<open>Date.now()\<close> and
    \<open>Math.random()\<close>;
  \<^item> \<open>papaParse\<close>: what \<open>Papa.parse\<close> with \<open>header: true\<close> hands to \<open>complete\<close> for a
    text: the header fields (\<open>results.meta.fields || []\<close>) and the rows
    (\<open>results.data\<close>), each row the list of its fields, all of them strings.
\<close>

type_synonym csvRow = "(string \<times> string) list"

record host =
  serialize :: "jsval \<Rightarrow> string"
  parseJSON :: "string \<Rightarrow> jsval option"
  toISOString :: "int \<Rightarrow> string"
  dateParse :: "string \<Rightarrow> date"
  toPrimitive :: "jsval \<Rightarrow> string"
  parseFloat :: "string \<Rightarrow> jsnum"
  now :: int
  startOfDay :: "int \<Rightarrow> int"
  freshId :: "nat \<Rightarrow> string"
  papaParse :: "string \<Rightarrow> string list \<times> csvRow list"

text \<open>
  \<open>TimeClip\<close>: a \<open>Date\<close> built from a number is valid when the number is finite and at
  most 8.64e15 in absolute value; the fraction is dropped towards zero.
\<close>

fun timeClip :: "jsnum \<Rightarrow> date" where
  "timeClip (Num r) =
     (if \<bar>r\<bar> \<le> 8640000000000000 then Some (if 0 \<le> r then \<lfloor>r\<rfloor> else \<lceil>r\<rceil>) else None)"
| "timeClip n = None"

text \<open>\<open>new Date(v)\<close> with one argument; the result is the time value of the new date.\<close>

fun newDate :: "host \<Rightarrow> jsval \<Rightarrow> date" where
  "newDate h (JDate d) = d"
| "newDate h JUndefined = None"
| "newDate h JNull = Some 0"
| "newDate h (JBool b) = Some (if b then 1 else 0)"
| "newDate h (JNum n) = timeClip n"
| "newDate h (JStr s) = dateParse h s"
| "newDate h (JArr vs) = dateParse h (toPrimitive h (JArr vs))"
| "newDate h (JObj kvs) = dateParse h (toPrimitive h (JObj kvs))"

text \<open>\<open>a.getTime() >= b.getTime()\<close>: false when either date is invalid.\<close>

fun timeGe :: "date \<Rightarrow> date \<Rightarrow> bool" where
  "timeGe (Some a) (Some b) = (b \<le> a)"
| "timeGe a b = False"

text \<open>
  The value that \<open>JSON.stringify\<close> prints for a value: a valid \<open>Date\<close> becomes its ISO
  string, an invalid one and the numbers \<open>NaN\<close> and \<open>Infinity\<close> become \<open>null\<close>, a
  property whose value is \<open>undefined\<close> is left out, and \<open>undefined\<close> in an array becomes
  \<open>null\<close>. \<open>JSON.parse\<close> of the text gives this value back.
\<close>

fun toJSON :: "host \<Rightarrow> jsval \<Rightarrow> jsval" where
  "toJSON h JUndefined = JNull"
| "toJSON h JNull = JNull"
| "toJSON h (JBool b) = JBool b"
| "toJSON h (JNum (Num r)) = JNum (Num r)"
| "toJSON h (JNum n) = JNull"
| "toJSON h (JStr s) = JStr s"
| "toJSON h (JDate None) = JNull"
| "toJSON h (JDate (Some t)) = JStr (toISOString h t)"
| "toJSON h (JArr vs) = JArr (map (toJSON h) vs)"
| "toJSON h (JObj kvs) =
     JObj (map (\<lambda>(k, v). (k, toJSON h v)) (filter (\<lambda>(k, v). v \<noteq> JUndefined) kvs))"

definition JSON_stringify :: "host \<Rightarrow> jsval \<Rightarrow> string" where
  "JSON_stringify h v = serialize h (toJSON h v)"

subsection \<open>The data model (src/types: Session, ValidationError, DuplicateInfo, ImportPreview)\<close>

text \<open>
  \<open>Session\<close> as the interface declares it; the field \<open>id\<close> is \<open>id'\<close> here. \<open>toObj\<close> is
  the object that a value of the interface is at run time, \<open>asSession\<close> reads an object
  as a \<open>Session\<close> (the type annotation \<open>const sessions: Session[]\<close>; other properties of
  the object are not kept).
\<close>

record session =
  id' :: string
  subject :: string
  duration :: jsnum
  startTime :: date
  endTime :: "date option"
  completed :: bool

definition toObj :: "session \<Rightarrow> obj" where
  "toObj s =
     [(''id'', JStr (id' s)), (''subject'', JStr (subject s)), (''duration'', JNum (duration s)),
      (''startTime'', JDate (startTime s))]
     @ (case endTime s of None \<Rightarrow> [] | Some e \<Rightarrow> [(''endTime'', JDate e)])
     @ [(''completed'', JBool (completed s))]"

definition asSession :: "obj \<Rightarrow> session" where
  "asSession ob =
     \<lparr> id' = (case field ob ''id'' of JStr s \<Rightarrow> s | _ \<Rightarrow> []),
       subject = (case field ob ''subject'' of JStr s \<Rightarrow> s | _ \<Rightarrow> []),
       duration = (case field ob ''duration'' of JNum n \<Rightarrow> n | _ \<Rightarrow> NaN),
       startTime = (case field ob ''startTime'' of JDate d \<Rightarrow> d | _ \<Rightarrow> None),
       endTime = (case field ob ''endTime'' of JDate d \<Rightarrow> Some d | _ \<Rightarrow> None),
       completed = (field ob ''completed'' = JBool True) \<rparr>"

datatype severity = Error | Warning

record issue =
  type :: severity
  message :: string
  row :: "nat option"
  column :: "string option"
  val :: jsval

record duplicateInfo =
  existingSession :: session
  importedSession :: session
  matchReason :: string

record importPreview =
  totalRows :: nat
  validRows :: nat
  errors :: "issue list"
  sampleData :: "session list"
  duplicates :: "duplicateInfo list"
  generatedIds :: nat

record sessionStats =
  daily :: nat
  weekly :: nat
  monthly :: nat

subsection \<open>generateChecksum, findDuplicates, validateSession\<close>

text \<open>
  Lines 43-51. \<open>hash\<close> is a 32-bit integer: \<open>hash & hash\<close> wraps the sum, so the loop is
  arithmetic on \<open>32 word\<close>; the result is the absolute value of the signed reading, in
  base 36.
\<close>

definition generateChecksum :: "string \<Rightarrow> string" where
  "generateChecksum data =
     (let hash = foldl (\<lambda>hash c. (push_bit 5 hash - hash) + of_nat (of_char c)) (0 :: 32 word) data
      in toStringRadix 36 (nat \<bar>sint hash\<bar>))"

text \<open>
  Lines 59-78. \<open>Math.abs(a.getTime() - b.getTime()) < 60000\<close> is false when a date is
  invalid. \<open>find\<close> gives the first existing session that matches.
\<close>

fun withinMinute :: "date \<Rightarrow> date \<Rightarrow> bool" where
  "withinMinute (Some a) (Some b) = (\<bar>a - b\<bar> < 60000)"
| "withinMinute a b = False"

definition isDuplicateOf :: "session \<Rightarrow> session \<Rightarrow> bool" where
  "isDuplicateOf newSession existing =
     (trim (toLowerCase (subject existing)) = trim (toLowerCase (subject newSession)) \<and>
      withinMinute (startTime existing) (startTime newSession))"

definition findDuplicates :: "session list \<Rightarrow> session list \<Rightarrow> duplicateInfo list" where
  "findDuplicates newSessions existingSessions =
     concat (map (\<lambda>newSession.
       (case find (isDuplicateOf newSession) existingSessions of
          None \<Rightarrow> []
        | Some duplicate \<Rightarrow>
            [\<lparr> existingSession = duplicate, importedSession = newSession,
               matchReason = ''Same subject and start time (within 1 minute)'' \<rparr>]))
       newSessions)"

text \<open>
  Lines 81-168. The argument is any object; \<open>rowIndex\<close> is \<open>None\<close> when the caller
  passes none. The issues come in the order of the checks: id, subject, duration,
  startTime, endTime, completed.
\<close>

definition validateSession :: "host \<Rightarrow> obj \<Rightarrow> nat option \<Rightarrow> bool \<Rightarrow> issue list" where
  "validateSession h session rowIndex allowMissingId =
     (let prefix = (case rowIndex of None \<Rightarrow> [] | Some r \<Rightarrow> ''Row '' @ decimal r @ '': '');
          sid = field session ''id'';
          subj = field session ''subject'';
          dur = field session ''duration'';
          startT = newDate h (field session ''startTime'');
          endV = field session ''endTime'';
          comp = field session ''completed''
      in
        (if \<not> allowMissingId \<and> (\<not> truthy sid \<or> typeof sid \<noteq> ''string'') then
           [\<lparr> type = Error, message = prefix @ ''Missing or invalid session ID'',
              row = rowIndex, column = Some ''id'', val = sid \<rparr>]
         else if truthy sid \<and> typeof sid \<noteq> ''string'' then
           [\<lparr> type = Error, message = prefix @ ''Invalid session ID format'',
              row = rowIndex, column = Some ''id'', val = sid \<rparr>]
         else [])
        @
        (if \<not> truthy subj \<or> typeof subj \<noteq> ''string''
            \<or> (case subj of JStr s \<Rightarrow> length (trim s) = 0 | _ \<Rightarrow> False) then
           [\<lparr> type = Error, message = prefix @ ''Missing or empty subject'',
              row = rowIndex, column = Some ''subject'', val = subj \<rparr>]
         else [])
        @
        (if typeof dur \<noteq> ''number'' \<or> (case dur of JNum n \<Rightarrow> leqZero n | _ \<Rightarrow> False) then
           [\<lparr> type = Error, message = prefix @ ''Duration must be a positive number'',
              row = rowIndex, column = Some ''duration'', val = dur \<rparr>]
         else [])
        @
        (if startT = None then
           [\<lparr> type = Error, message = prefix @ ''Invalid start time format'',
              row = rowIndex, column = Some ''startTime'', val = field session ''startTime'' \<rparr>]
         else [])
        @
        (if truthy endV then
           (let endT = newDate h endV in
            if endT = None then
              [\<lparr> type = Error, message = prefix @ ''Invalid end time format'',
                 row = rowIndex, column = Some ''endTime'', val = endV \<rparr>]
            else if timeGe startT endT then
              [\<lparr> type = Warning, message = prefix @ ''End time should be after start time'',
                 row = rowIndex, column = Some ''endTime'', val = JUndefined \<rparr>]
            else [])
         else [])
        @
        (if typeof comp \<noteq> ''boolean'' then
           [\<lparr> type = Error, message = prefix @ ''Completed field must be true or false'',
              row = rowIndex, column = Some ''completed'', val = comp \<rparr>]
         else []))"

text \<open>\<open>errors.filter(e => e.type === 'error')\<close>, used by every caller.\<close>

definition errorsOnly :: "issue list \<Rightarrow> issue list" where
  "errorsOnly es = filter (\<lambda>e. type e = Error) es"

subsection \<open>The world: localStorage, its capacity, the console, the identifiers drawn\<close>

text \<open>
  \<open>items\<close> is \<open>localStorage\<close>. \<open>setItem\<close> throws a \<open>QuotaExceededError\<close> when the text is
  longer than \<open>quota\<close> (a store that accepts no write at all has quota 0), and changes
  nothing then. \<open>console\<close> is the list of the messages logged so far, oldest first (the
  objects logged after the message are not kept). \<open>generated\<close> counts the calls of
  \<open>generateId\<close>.
\<close>

datatype logEntry = ConsoleWarn string | ConsoleError string

record world =
  items :: "string \<Rightarrow> string option"
  quota :: nat
  console :: "logEntry list"
  generated :: nat

definition STORAGE_KEY :: string where
  "STORAGE_KEY = ''learning-timer-enhanced-data''"

definition LEGACY_SESSIONS_KEY :: string where
  "LEGACY_SESSIONS_KEY = ''learning-timer-sessions''"

definition CURRENT_VERSION :: string where
  "CURRENT_VERSION = ''1.0.0''"

definition getItem :: "world \<Rightarrow> string \<Rightarrow> string option" where
  "getItem w k = items w k"

definition setItem :: "string \<Rightarrow> string \<Rightarrow> world \<Rightarrow> exn + world" where
  "setItem k v w =
     (if length v \<le> quota w then Inr (w\<lparr>items := (items w)(k \<mapsto> v)\<rparr>)
      else Inl (Exn ''QuotaExceededError'' []))"

definition removeItem :: "string \<Rightarrow> world \<Rightarrow> world" where
  "removeItem k w = w\<lparr>items := (items w)(k := None)\<rparr>"

definition warn :: "string \<Rightarrow> world \<Rightarrow> world" where
  "warn msg w = w\<lparr>console := console w @ [ConsoleWarn msg]\<rparr>"

definition logError :: "string \<Rightarrow> world \<Rightarrow> world" where
  "logError msg w = w\<lparr>console := console w @ [ConsoleError msg]\<rparr>"

text \<open>
  \<open>if (!stored)\<close> on the result of \<open>getItem\<close>: the text when there is an item and it is
  not the empty string.
\<close>

fun present :: "string option \<Rightarrow> string option" where
  "present None = None"
| "present (Some s) = (if s = [] then None else Some s)"

text \<open>Lines 31-40: the probe writes and removes the key \<open>__storage_test__\<close>.\<close>

definition isStorageAvailable :: "world \<Rightarrow> bool \<times> world" where
  "isStorageAvailable w =
     (case setItem ''__storage_test__'' ''__storage_test__'' w of
        Inl e \<Rightarrow> (False, w)
      | Inr w' \<Rightarrow> (True, removeItem ''__storage_test__'' w'))"

text \<open>The world after the probe of \<open>isStorageAvailable\<close> has succeeded.\<close>

definition probed :: "world \<Rightarrow> world" where
  "probed w = w\<lparr>items := (items w)(''__storage_test__'' := None)\<rparr>"

text \<open>Lines 54-56.\<close>

definition generateId :: "host \<Rightarrow> world \<Rightarrow> string \<times> world" where
  "generateId h w = (freshId h (generated w), w\<lparr>generated := generated w + 1\<rparr>)"

subsection \<open>saveSessions\<close>

text \<open>
  Lines 266-306. The result is the exception thrown, or \<open>()\<close>; the world is returned in
  both cases. \<open>indexed\<close> pairs each element with its index, as the callbacks of
  \<open>forEach\<close> and \<open>filter\<close> receive it.
\<close>

definition indexed :: "'a list \<Rightarrow> (nat \<times> 'a) list" where
  "indexed xs = zip [0 ..< length xs] xs"

definition saveErrors :: "host \<Rightarrow> session list \<Rightarrow> issue list" where
  "saveErrors h sessions =
     concat (map (\<lambda>(index, s). errorsOnly (validateSession h (toObj s) (Some (index + 1)) False))
       (indexed sessions))"

definition sessionsValue :: "session list \<Rightarrow> jsval" where
  "sessionsValue sessions = JArr (map (\<lambda>s. JObj (toObj s)) sessions)"

definition storageData :: "host \<Rightarrow> session list \<Rightarrow> jsval" where
  "storageData h sessions =
     JObj [(''metadata'',
            JObj [(''version'', JStr CURRENT_VERSION),
                  (''lastModified'', JDate (Some (now h))),
                  (''sessionCount'', JNum (Num (of_nat (length sessions)))),
                  (''dataChecksum'',
                     JStr (generateChecksum (JSON_stringify h (sessionsValue sessions))))]),
           (''sessions'', sessionsValue sessions)]"

definition saveSessions :: "host \<Rightarrow> session list \<Rightarrow> world \<Rightarrow> (exn + unit) \<times> world" where
  "saveSessions h sessions w0 =
     (case isStorageAvailable w0 of
        (False, w) \<Rightarrow> (Inl (newError ''localStorage not available''), w)
      | (True, w) \<Rightarrow>
          (let allErrors = saveErrors h sessions in
           if length allErrors > 0 then
             (Inl (newError (''Cannot save invalid sessions: '' @ join '', '' (map message allErrors))), w)
           else
             (let text = JSON_stringify h (storageData h sessions);
                  w1 = (if length text > 5 * 1024 * 1024
                        then warn ''Storage data is getting large, consider data cleanup'' w
                        else w)
              in case setItem STORAGE_KEY text w1 of
                   Inr w2 \<Rightarrow> (Inr (), w2)
                 | Inl e \<Rightarrow>
                     (if name e = ''QuotaExceededError'' then
                        (Inl (newError ''Storage quota exceeded. Please export and clear old data.''), w1)
                      else (Inl e, w1)))))"

subsection \<open>migrateLegacyData and loadSessions\<close>

text \<open>
  The object that both functions build from a parsed element,
  \<open>{...session, startTime: new Date(session.startTime), endTime: session.endTime ? new
  Date(session.endTime) : undefined}\<close>. Reading \<open>session.startTime\<close> throws a \<open>TypeError\<close>
  on \<open>null\<close> (here \<open>None\<close>); the spread of a value that is not a plain object copies no
  property that this module reads.
\<close>

definition revive :: "host \<Rightarrow> jsval \<Rightarrow> obj option" where
  "revive h v =
     (case getProp v ''startTime'' of
        None \<Rightarrow> None
      | Some st \<Rightarrow>
          (let ob = (case v of JObj kvs \<Rightarrow> kvs | _ \<Rightarrow> []);
               et = field ob ''endTime''
           in Some (setProp (setProp ob ''startTime'' (JDate (newDate h st))) ''endTime''
                      (if truthy et then JDate (newDate h et) else JUndefined))))"

text \<open>\<open>xs.map(f)\<close> where \<open>f\<close> may throw: the first exception ends the loop.\<close>

fun mapM :: "('a \<Rightarrow> 'b option) \<Rightarrow> 'a list \<Rightarrow> 'b list option" where
  "mapM f [] = Some []"
| "mapM f (x # xs) =
     (case f x of None \<Rightarrow> None
      | Some y \<Rightarrow> (case mapM f xs of None \<Rightarrow> None | Some ys \<Rightarrow> Some (y # ys)))"

text \<open>
  \<open>data.sessions.map(...)\<close>: a value that is not an array has no method \<open>map\<close>
  (\<open>TypeError\<close>, here \<open>None\<close>).
\<close>

definition reviveAll :: "host \<Rightarrow> jsval \<Rightarrow> obj list option" where
  "reviveAll h v = (case v of JArr elems \<Rightarrow> mapM (revive h) elems | _ \<Rightarrow> None)"

definition hasErrors :: "host \<Rightarrow> nat \<times> obj \<Rightarrow> bool" where
  "hasErrors h p = (length (errorsOnly (validateSession h (snd p) (Some (fst p + 1)) False)) > 0)"

text \<open>
  \<open>sessions.filter((session, index) => ...)\<close> of both functions: the objects that
  \<open>validateSession\<close>, called with the row \<open>index + 1\<close>, finds no error in.
\<close>

definition validOnly :: "host \<Rightarrow> obj list \<Rightarrow> obj list" where
  "validOnly h sessions = map snd (filter (\<lambda>p. \<not> hasErrors h p) (indexed sessions))"

text \<open>
  Lines 171-203. The body of the \<open>try\<close> changes the world only after its last statement
  that can throw, so the \<open>catch\<close> starts from the world of the call.
\<close>

definition migrateLegacyData :: "host \<Rightarrow> world \<Rightarrow> session list \<times> world" where
  "migrateLegacyData h w =
     (case present (getItem w LEGACY_SESSIONS_KEY) of
        None \<Rightarrow> ([], w)
      | Some legacyData \<Rightarrow>
          (case Option.bind (parseJSON h legacyData) (reviveAll h) of
             None \<Rightarrow> ([], logError ''Failed to migrate legacy data:'' w)
           | Some migratedSessions \<Rightarrow>
               (let allErrors = concat (map (\<lambda>(index, s). validateSession h s (Some (index + 1)) False)
                                          (indexed migratedSessions));
                    validSessions = validOnly h migratedSessions;
                    w1 = (if length allErrors > 0
                          then warn ''Legacy data migration warnings:'' w else w)
                in (map asSession validSessions, removeItem LEGACY_SESSIONS_KEY w1))))"

text \<open>
  Lines 225-257, the statements of the \<open>try\<close> after \<open>stored\<close> has been found: \<open>None\<close>
  when one of them throws (\<open>JSON.parse\<close>, a property read on \<open>null\<close>, \<open>Invalid storage
  format\<close>, \<open>map\<close>). All of them come before the first warning, so the \<open>catch\<close> starts from
  the world in which \<open>stored\<close> was read.
\<close>

definition parseStored :: "host \<Rightarrow> string \<Rightarrow> (jsval \<times> jsval \<times> obj list) option" where
  "parseStored h stored =
     (case parseJSON h stored of
        None \<Rightarrow> None
      | Some data \<Rightarrow>
          (case getProp data ''metadata'' of
             None \<Rightarrow> None
           | Some metadata \<Rightarrow>
               if \<not> truthy metadata then None
               else
                 (case getProp data ''sessions'' of
                    None \<Rightarrow> None
                  | Some sessions \<Rightarrow>
                      if \<not> truthy sessions then None
                      else
                        (case reviveAll h sessions of
                           None \<Rightarrow> None
                         | Some revived \<Rightarrow> Some (metadata, sessions, revived)))))"

definition invalidSessionWarnings :: "host \<Rightarrow> obj list \<Rightarrow> logEntry list" where
  "invalidSessionWarnings h sessions =
     map (\<lambda>p. ConsoleWarn (''Invalid session at index '' @ decimal (fst p) @ '':''))
       (filter (hasErrors h) (indexed sessions))"

definition integrityWarning :: string where
  "integrityWarning = ''Data integrity check failed, data may be corrupted''"

text \<open>Lines 206-263.\<close>

definition loadSessions :: "host \<Rightarrow> world \<Rightarrow> session list \<times> world" where
  "loadSessions h w0 =
     (case isStorageAvailable w0 of
        (False, w) \<Rightarrow> ([], warn ''localStorage not available, returning empty array'' w)
      | (True, w) \<Rightarrow>
          (case present (getItem w STORAGE_KEY) of
             None \<Rightarrow>
               (let (migratedSessions, w1) = migrateLegacyData h w in
                if length migratedSessions > 0 then
                  (case saveSessions h migratedSessions w1 of
                     (Inr u, w2) \<Rightarrow> (migratedSessions, w2)
                   | (Inl e, w2) \<Rightarrow> migrateLegacyData h (logError ''Failed to load sessions:'' w2))
                else ([], w1))
           | Some stored \<Rightarrow>
               (case parseStored h stored of
                  None \<Rightarrow> migrateLegacyData h (logError ''Failed to load sessions:'' w)
                | Some (metadata, sessions, revived) \<Rightarrow>
                    (let expectedChecksum = generateChecksum (JSON_stringify h sessions);
                         dataChecksum = (case getProp metadata ''dataChecksum'' of
                                           None \<Rightarrow> JUndefined | Some c \<Rightarrow> c);
                         w1 = (if truthy dataChecksum \<and> dataChecksum \<noteq> JStr expectedChecksum
                               then warn integrityWarning w else w);
                         validSessions = validOnly h revived;
                         w2 = w1\<lparr>console := console w1 @ invalidSessionWarnings h revived\<rparr>
                     in (map asSession validSessions, w2)))))"

text \<open>
  Two notions for stating the round trip of \<open>saveSessions\<close> and \<open>loadSessions\<close>:
  \<open>roundTrips h t\<close> says that \<open>new Date\<close> reads the ISO string of the time value \<open>t\<close>
  back as \<open>t\<close> (and that the string is not empty); \<open>reloaded h s\<close> is the object that
  \<open>loadSessions\<close> builds from the stored form of the session \<open>s\<close>.
\<close>

definition roundTrips :: "host \<Rightarrow> int \<Rightarrow> bool" where
  "roundTrips h t = (toISOString h t \<noteq> [] \<and> dateParse h (toISOString h t) = Some t)"

definition reloaded :: "host \<Rightarrow> session \<Rightarrow> obj" where
  "reloaded h s = (case revive h (toJSON h (JObj (toObj s))) of Some ob \<Rightarrow> ob | None \<Rightarrow> [])"

subsection \<open>addSession and getSessionStats\<close>

text \<open>Lines 309-318.\<close>

definition addSession :: "host \<Rightarrow> session \<Rightarrow> world \<Rightarrow> (exn + unit) \<times> world" where
  "addSession h session w =
     (let errs = validateSession h (toObj session) None False in
      if length (errorsOnly errs) > 0 then
        (Inl (newError (''Invalid session: '' @ join '', '' (map message errs))), w)
      else
        (let (sessions, w1) = loadSessions h w in
         saveSessions h (sessions @ [session]) w1))"

text \<open>
  Lines 603-615. \<open>today\<close>, \<open>weekAgo\<close> and \<open>monthAgo\<close> are dates; \<open>s.startTime >= today\<close>
  compares the time values.
\<close>

definition getSessionStats :: "host \<Rightarrow> world \<Rightarrow> sessionStats \<times> world" where
  "getSessionStats h w =
     (let (loaded, w1) = loadSessions h w;
          sessions = filter completed loaded;
          today = Some (startOfDay h (now h));
          weekAgo = timeClip (Num (of_int (startOfDay h (now h) - 7 * 24 * 60 * 60 * 1000)));
          monthAgo = timeClip (Num (of_int (startOfDay h (now h) - 30 * 24 * 60 * 60 * 1000)))
      in (\<lparr> daily = length (filter (\<lambda>s. timeGe (startTime s) today) sessions),
            weekly = length (filter (\<lambda>s. timeGe (startTime s) weekAgo) sessions),
            monthly = length (filter (\<lambda>s. timeGe (startTime s) monthAgo) sessions) \<rparr>, w1))"

subsection \<open>validateCSVFile\<close>

text \<open>
  Lines 410-537. A \<open>File\<close> is its size, name, media type and text (\<open>None\<close> when the
  \<open>FileReader\<close> fails). The promise is the result: \<open>Inl\<close> when it is rejected, \<open>Inr\<close>
  the preview it resolves to.
\<close>

record csvFile =
  fileSize :: nat
  fileName :: string
  fileType :: string
  fileText :: "string option"

definition MAX_FILE_SIZE :: nat where
  "MAX_FILE_SIZE = 1024 * 1024"

definition requiredColumns :: "string list" where
  "requiredColumns = [''subject'', ''duration'', ''startTime'', ''completed'']"

definition endsWith :: "string \<Rightarrow> string \<Rightarrow> bool" where
  "endsWith s suf = (length suf \<le> length s \<and> drop (length s - length suf) s = suf)"

text \<open>\<open>Math.round(n / d)\<close> on natural numbers.\<close>

definition roundDiv :: "nat \<Rightarrow> nat \<Rightarrow> nat" where
  "roundDiv n d = (2 * n + d) div (2 * d)"

definition missingColumn :: "string \<Rightarrow> issue" where
  "missingColumn col =
     \<lparr> type = Error, message = ''Missing required column: '' @ col,
       row = None, column = Some col, val = JUndefined \<rparr>"

text \<open>
  The variables that the row loop updates: \<open>errors\<close>, \<open>validSessions\<close>, \<open>generatedIds\<close>
  and \<open>usedIds\<close>.
\<close>

record rowLoop =
  loopErrors :: "issue list"
  validSessions :: "session list"
  generatedCount :: nat
  usedIds :: "string set"

text \<open>
  The session of a row, lines 483-490; a field the row does not have is \<open>undefined\<close>.
\<close>

definition rowSession :: "host \<Rightarrow> string \<Rightarrow> csvRow \<Rightarrow> session" where
  "rowSession h sessionId r =
     \<lparr> id' = sessionId,
       subject = (case map_of r ''subject'' of None \<Rightarrow> [] | Some s \<Rightarrow> trim s),
       duration = (let n = (case map_of r ''duration'' of None \<Rightarrow> NaN | Some s \<Rightarrow> parseFloat h s)
                   in if truthy (JNum n) then n else Num 0),
       startTime = (case map_of r ''startTime'' of None \<Rightarrow> None | Some s \<Rightarrow> dateParse h s),
       endTime = (case map_of r ''endTime'' of None \<Rightarrow> None
                  | Some s \<Rightarrow> if s = [] then None else Some (dateParse h s)),
       completed = (map_of r ''completed'' = Some ''true'') \<rparr>"

text \<open>
  One turn of the loop over \<open>results.data\<close>, lines 458-506. Nothing in the body of its
  \<open>try\<close> throws on a row of strings, so the \<open>catch\<close> has no branch here.
\<close>

definition processRow :: "host \<Rightarrow> rowLoop \<times> world \<Rightarrow> nat \<times> csvRow \<Rightarrow> rowLoop \<times> world" where
  "processRow h st p =
     (let (loop, w) = st;
          (index, r) = p;
          rowNumber = index + 2;
          parsedId = (case map_of r ''id'' of None \<Rightarrow> [] | Some s \<Rightarrow> trim s);
          (id1, n1, w1) = (if parsedId = []
                           then (let (i, w') = generateId h w in (i, generatedCount loop + 1, w'))
                           else (parsedId, generatedCount loop, w));
          (id2, n2, errs2, w2) =
            (if id1 \<in> usedIds loop
             then (let (i, w') = generateId h w1 in
                   (i, n1 + 1,
                    loopErrors loop @
                      [\<lparr> type = Warning,
                         message = ''Row '' @ decimal rowNumber @ '': Duplicate ID found, auto-generated new ID'',
                         row = Some rowNumber, column = Some ''id'', val = JUndefined \<rparr>],
                    w'))
             else (id1, n1, loopErrors loop, w1));
          session = rowSession h id2 r;
          validationErrors = validateSession h (toObj session) (Some rowNumber) True
      in (\<lparr> loopErrors = errs2 @ validationErrors,
            validSessions = (if length (errorsOnly validationErrors) = 0
                             then validSessions loop @ [session] else validSessions loop),
            generatedCount = n2,
            usedIds = insert id2 (usedIds loop) \<rparr>, w2))"

definition validateCSVFile :: "host \<Rightarrow> csvFile \<Rightarrow> world \<Rightarrow> (exn + importPreview) \<times> world" where
  "validateCSVFile h f w =
     (if fileSize f > MAX_FILE_SIZE then
        (Inl (newError (''File size ('' @ decimal (roundDiv (fileSize f) 1024)
                 @ ''KB) exceeds maximum allowed size ('' @ decimal (MAX_FILE_SIZE div 1024) @ ''KB)'')), w)
      else if \<not> endsWith (toLowerCase (fileName f)) ''.csv'' \<and> fileType f \<noteq> ''text/csv'' then
        (Inl (newError ''File must be a CSV file (.csv extension)''), w)
      else
        (case fileText f of
           None \<Rightarrow> (Inl (newError ''Failed to read file''), w)
         | Some csvContent \<Rightarrow>
             (let (headers, rows) = papaParse h csvContent;
                  missing = map missingColumn (filter (\<lambda>col. col \<notin> set headers) requiredColumns);
                  start = \<lparr> loopErrors = missing, validSessions = [], generatedCount = 0, usedIds = {} \<rparr>;
                  (loop, w1) = (if length missing = 0
                                then foldl (processRow h) (start, w) (indexed rows)
                                else (start, w));
                  (existingSessions, w2) = loadSessions h w1
              in (Inr \<lparr> totalRows = length rows,
                        validRows = length (validSessions loop),
                        errors = loopErrors loop,
                        sampleData = validSessions loop,
                        duplicates = findDuplicates (validSessions loop) existingSessions,
                        generatedIds = generatedCount loop \<rparr>, w2))))"

subsection \<open>A host to run the model on\<close>

text \<open>
  A small stand-in for the runtime, used where the functions above are evaluated on
  concrete inputs. It prints a value in the manner of JSON (no escapes, the integral
  part of a number), reads back exactly the texts of the documents \<open>docs\<close> it is given,
  writes the time value \<open>t\<close> as \<open>T\<close> followed by its decimal digits and reads only that
  form as a date, takes UTC days as local days, numbers the generated identifiers, and
  splits a CSV text at line feeds and commas.
\<close>

definition quote :: "string \<Rightarrow> string" where
  "quote s = [CHR 0x22] @ s @ [CHR 0x22]"

definition signedDecimal :: "int \<Rightarrow> string" where
  "signedDecimal i = (if i < 0 then ''-'' else []) @ decimal (nat \<bar>i\<bar>)"

fun demoSerialize :: "jsval \<Rightarrow> string" where
  "demoSerialize JUndefined = ''undefined''"
| "demoSerialize JNull = ''null''"
| "demoSerialize (JBool b) = (if b then ''true'' else ''false'')"
| "demoSerialize (JNum (Num r)) = signedDecimal \<lfloor>r\<rfloor>"
| "demoSerialize (JNum n) = ''null''"
| "demoSerialize (JStr s) = quote s"
| "demoSerialize (JDate d) = ''null''"
| "demoSerialize (JArr vs) = ''['' @ join '','' (map demoSerialize vs) @ '']''"
| "demoSerialize (JObj kvs) =
     ''{'' @ join '','' (map (\<lambda>(k, v). quote k @ '':'' @ demoSerialize v) kvs) @ ''}''"

definition isDigit :: "char \<Rightarrow> bool" where
  "isDigit c = (48 \<le> (of_char c :: nat) \<and> (of_char c :: nat) \<le> 57)"

definition digitsValue :: "string \<Rightarrow> nat option" where
  "digitsValue ds =
     (if ds \<noteq> [] \<and> list_all isDigit ds
      then Some (foldl (\<lambda>a c. 10 * a + (of_char c - 48)) 0 ds) else None)"

fun demoDateParse :: "string \<Rightarrow> date" where
  "demoDateParse (c # ds) = (if c = CHR ''T'' then map_option int (digitsValue ds) else None)"
| "demoDateParse [] = None"

definition demoParseFloat :: "string \<Rightarrow> jsnum" where
  "demoParseFloat s =
     (case digitsValue s of
        Some n \<Rightarrow> Num (of_nat n)
      | None \<Rightarrow> if s = ''Infinity'' then PosInf else NaN)"

fun splitOn :: "char \<Rightarrow> string \<Rightarrow> string list" where
  "splitOn sep [] = [[]]"
| "splitOn sep (c # cs) =
     (if c = sep then [] # splitOn sep cs
      else (case splitOn sep cs of [] \<Rightarrow> [[c]] | x # xs \<Rightarrow> (c # x) # xs))"

definition demoPapaParse :: "string \<Rightarrow> string list \<times> csvRow list" where
  "demoPapaParse txt =
     (case filter (\<lambda>l. l \<noteq> []) (splitOn (CHR 0x0A) txt) of
        [] \<Rightarrow> ([], [])
      | header # ls \<Rightarrow>
          (splitOn (CHR '','') header, map (\<lambda>l. zip (splitOn (CHR '','') header) (splitOn (CHR '','') l)) ls))"

definition demoHost :: "jsval list \<Rightarrow> host" where
  "demoHost docs =
     \<lparr> serialize = demoSerialize,
       parseJSON = (\<lambda>txt. find (\<lambda>v. demoSerialize v = txt) docs),
       toISOString = (\<lambda>t. CHR ''T'' # signedDecimal t),
       dateParse = demoDateParse,
       toPrimitive = (\<lambda>v. ''[object Object]''),
       parseFloat = demoParseFloat,
       now = 1700000000000,
       startOfDay = (\<lambda>t. t - t mod 86400000),
       freshId = (\<lambda>n. ''session_'' @ decimal n),
       papaParse = demoPapaParse \<rparr>"

text \<open>An empty store that accepts texts of up to \<open>q\<close> characters.\<close>

definition emptyWorld :: "nat \<Rightarrow> world" where
  "emptyWorld q = \<lparr> items = (\<lambda>k. None), quota = q, console = [], generated = 0 \<rparr>"

text \<open>A store that holds the items \<open>kvs\<close> and accepts texts of up to \<open>q\<close> characters.\<close>

definition worldWith :: "nat \<Rightarrow> (string \<times> string) list \<Rightarrow> world" where
  "worldWith q kvs = \<lparr> items = map_of kvs, quota = q, console = [], generated = 0 \<rparr>"

subsection \<open>Example data\<close>

definition mathSession :: session where
  "mathSession = \<lparr> id' = ''a1'', subject = ''Math'', duration = Num 25, startTime = Some 1000,
     endTime = Some (Some 2000), completed = True \<rparr>"

text \<open>
  The example of the statistics: a stored document with completed sessions that start
  today at 09:00, 6 days ago and 40 days ago, and one session of today that is not
  completed, read at 18:00 (UTC days; today's midnight is 1699920000000).
\<close>

definition statsNow :: int where "statsNow = 1699984800000"

definition statsSessions :: "session list" where
  "statsSessions =
     [\<lparr> id' = ''s1'', subject = ''Math'', duration = Num 25, startTime = Some 1699952400000,
         endTime = None, completed = True \<rparr>,
      \<lparr> id' = ''s2'', subject = ''Math'', duration = Num 25, startTime = Some 1699466400000,
         endTime = None, completed = True \<rparr>,
      \<lparr> id' = ''s3'', subject = ''Math'', duration = Num 25, startTime = Some 1696528800000,
         endTime = None, completed = True \<rparr>,
      \<lparr> id' = ''s4'', subject = ''Math'', duration = Num 25, startTime = Some 1699956000000,
         endTime = None, completed = False \<rparr>]"

definition sessionJSON :: "string \<Rightarrow> string \<Rightarrow> bool \<Rightarrow> jsval" where
  "sessionJSON i t c =
     JObj [(''id'', JStr i), (''subject'', JStr ''Math''), (''duration'', JNum (Num 25)),
           (''startTime'', JStr t), (''completed'', JBool c)]"

definition statsDoc :: jsval where
  "statsDoc =
     JObj [(''metadata'', JObj [(''version'', JStr ''1.0.0''), (''sessionCount'', JNum (Num 4))]),
           (''sessions'',
              JArr [sessionJSON ''s1'' ''T1699952400000'' True, sessionJSON ''s2'' ''T1699466400000'' True,
                    sessionJSON ''s3'' ''T1696528800000'' True, sessionJSON ''s4'' ''T1699956000000'' False])]"

definition statsHost :: host where
  "statsHost = (demoHost [statsDoc])\<lparr>now := statsNow\<rparr>"

definition statsWorld :: world where
  "statsWorld = worldWith 1000 [(STORAGE_KEY, demoSerialize statsDoc)]"

definition statsRevived :: "obj list" where
  "statsRevived = map (\<lambda>s. toObj s @ [(''endTime'', JUndefined)]) statsSessions"

text \<open>A CSV file whose header has no column \<open>duration\<close>.\<close>

definition noDurationFile :: csvFile where
  "noDurationFile =
     \<lparr> fileSize = 44, fileName = ''sessions.CSV'', fileType = [],
       fileText = Some (''subject,startTime,completed'' @ [CHR 0x0A] @ ''Math,T1000,true'') \<rparr>"

text \<open>
  Stored documents for the integrity check: one whose \<open>dataChecksum\<close> does not match its
  sessions, and the document of the statistics example with the matching checksum
  added; \<open>checkHost\<close> reads both that example and the latter.
\<close>

definition tamperedDoc :: jsval where
  "tamperedDoc =
     JObj [(''metadata'', JObj [(''version'', JStr ''1.0.0''), (''sessionCount'', JNum (Num 1)),
                                (''dataChecksum'', JStr ''tampered'')]),
           (''sessions'', JArr [sessionJSON ''s1'' ''T1699952400000'' True])]"

definition tamperedWorld :: world where
  "tamperedWorld = worldWith 1000 [(STORAGE_KEY, demoSerialize tamperedDoc)]"

definition matchedDoc :: jsval where
  "matchedDoc =
     JObj [(''metadata'',
            JObj [(''version'', JStr ''1.0.0''), (''sessionCount'', JNum (Num 4)),
                  (''dataChecksum'', JStr (generateChecksum (demoSerialize
                     (JArr [sessionJSON ''s1'' ''T1699952400000'' True, sessionJSON ''s2'' ''T1699466400000'' True,
                            sessionJSON ''s3'' ''T1696528800000'' True, sessionJSON ''s4'' ''T1699956000000'' False]))))]),
           (''sessions'',
              JArr [sessionJSON ''s1'' ''T1699952400000'' True, sessionJSON ''s2'' ''T1699466400000'' True,
                    sessionJSON ''s3'' ''T1696528800000'' True, sessionJSON ''s4'' ''T1699956000000'' False])]"

definition s1Session :: session where
  "s1Session = \<lparr> id' = ''s1'', subject = ''Math'', duration = Num 25, startTime = Some 1699952400000,
                  endTime = None, completed = True \<rparr>"

definition checkHost :: host where
  "checkHost = demoHost [statsDoc, matchedDoc]"

text \<open>
  A legacy item with one valid session in a store whose quota is below the length of
  any envelope, and a session whose duration is \<open>Infinity\<close> with a host that reads back
  the envelope \<open>saveSessions\<close> writes for it.
\<close>

definition legacyDoc :: jsval where
  "legacyDoc = JArr [sessionJSON ''s1'' ''T1699952400000'' True]"

definition legacyWorld :: world where
  "legacyWorld = worldWith 20 [(LEGACY_SESSIONS_KEY, demoSerialize legacyDoc)]"

definition infSession :: session where
  "infSession = mathSession\<lparr>duration := PosInf\<rparr>"

definition infHost :: host where
  "infHost = demoHost [toJSON (demoHost []) (storageData (demoHost []) [infSession])]"

definition roundHost :: host where
  "roundHost = demoHost [toJSON (demoHost []) (storageData (demoHost []) [mathSession])]"

section \<open>Properties\<close>

lemmas value_defs = field_def newError_def
lemmas string_defs = isWhiteSpace_def trim_def lowerChar_def toLowerCase_def digitChar_def decimal_def
lemmas store_defs = STORAGE_KEY_def LEGACY_SESSIONS_KEY_def CURRENT_VERSION_def getItem_def
  setItem_def removeItem_def warn_def logError_def isStorageAvailable_def generateId_def
lemmas demo_defs = demoHost_def quote_def signedDecimal_def isDigit_def digitsValue_def
  demoParseFloat_def demoPapaParse_def emptyWorld_def

subsection \<open>validateSession: the order of startTime and endTime\<close>

lemma field_without:
  "field (filter (\<lambda>p. fst p \<noteq> k) ob) k' = (if k' = k then JUndefined else field ob k')"
  by (induction ob) (auto simp: field_def)

text \<open>
  C8, as the specification states it, fails: a record whose \<open>endTime\<close> equals its
  \<open>startTime\<close> does receive the ordering warning, because line 147 compares with \<open>>=\<close>.
\<close>

theorem equal_endTime_is_warned:
  "validateSession (demoHost []) (toObj (mathSession\<lparr>endTime := Some (Some 1000)\<rparr>)) None False =
     [\<lparr> type = Warning, message = ''End time should be after start time'', row = None,
        column = Some ''endTime'', val = JUndefined \<rparr>]"
  by (simp add: validateSession_def toObj_def mathSession_def value_defs string_defs)

text \<open>
  C8 (amended). For every candidate record whose \<open>endTime\<close> is present and is a valid
  instant \<open>e\<close>, validation emits the warning "End time should be after start time"
  exactly when \<open>startTime\<close> is a valid instant \<open>t\<close> with \<open>e \<le> t\<close> (so also when the two
  are equal), and no other warning; the issues of severity error, which alone decide
  whether the record is acceptable, are those of the same record without its \<open>endTime\<close>.
\<close>

theorem endTime_order_warning:
  assumes "truthy (field ob ''endTime'')" and "newDate h (field ob ''endTime'') = Some e"
  shows "filter (\<lambda>i. type i = Warning) (validateSession h ob r a) =
           (if (case newDate h (field ob ''startTime'') of None \<Rightarrow> False | Some t \<Rightarrow> e \<le> t)
            then [\<lparr> type = Warning,
                     message = (case r of None \<Rightarrow> [] | Some n \<Rightarrow> ''Row '' @ decimal n @ '': '')
                               @ ''End time should be after start time'',
                     row = r, column = Some ''endTime'', val = JUndefined \<rparr>]
            else [])
         \<and> errorsOnly (validateSession h ob r a) =
           errorsOnly (validateSession h (filter (\<lambda>p. fst p \<noteq> ''endTime'') ob) r a)"
  using assms
  by (cases "newDate h (field ob ''startTime'')")
     (simp_all add: validateSession_def Let_def errorsOnly_def field_without)

theorem endTime_order_warning_witness:
  "truthy (field (toObj (mathSession\<lparr>endTime := Some (Some 500)\<rparr>)) ''endTime'')
   \<and> newDate (demoHost []) (field (toObj (mathSession\<lparr>endTime := Some (Some 500)\<rparr>)) ''endTime'') = Some 500
   \<and> filter (\<lambda>i. type i = Warning)
        (validateSession (demoHost []) (toObj (mathSession\<lparr>endTime := Some (Some 500)\<rparr>)) None False) =
      [\<lparr> type = Warning, message = ''End time should be after start time'', row = None,
         column = Some ''endTime'', val = JUndefined \<rparr>]
   \<and> errorsOnly (validateSession (demoHost []) (toObj (mathSession\<lparr>endTime := Some (Some 500)\<rparr>)) None False) = []"
  using endTime_order_warning [of "toObj (mathSession\<lparr>endTime := Some (Some 500)\<rparr>)" "demoHost []" 500 None False]
  by (simp add: validateSession_def toObj_def mathSession_def errorsOnly_def value_defs string_defs)

subsection \<open>addSession\<close>

lemma validate_negative_duration:
  "validateSession h (toObj (mathSession\<lparr>duration := Num (-5)\<rparr>)) r False =
     [\<lparr> type = Error,
        message = (case r of None \<Rightarrow> [] | Some n \<Rightarrow> ''Row '' @ decimal n @ '': '')
                  @ ''Duration must be a positive number'',
        row = r, column = Some ''duration'', val = JNum (Num (-5)) \<rparr>]"
  by (simp add: validateSession_def toObj_def mathSession_def value_defs string_defs)

text \<open>
  C9. When the record has an issue of severity error, \<open>addSession\<close> throws and the world
  it leaves is the world it was called in: nothing is read from or written to the
  store, and the record is not appended.
\<close>

theorem addSession_rejects_invalid:
  assumes "errorsOnly (validateSession h (toObj s) None False) \<noteq> []"
  shows "addSession h s w =
    (Inl (newError (''Invalid session: ''
            @ join '', '' (map message (validateSession h (toObj s) None False)))), w)"
  using assms by (simp add: addSession_def Let_def)

theorem addSession_rejects_invalid_witness:
  "addSession (demoHost []) (mathSession\<lparr>duration := Num (-5)\<rparr>) (emptyWorld 1000) =
     (Inl (newError ''Invalid session: Duration must be a positive number''), emptyWorld 1000)"
  using addSession_rejects_invalid
    [of "demoHost []" "mathSession\<lparr>duration := Num (-5)\<rparr>" "emptyWorld 1000"]
  by (simp add: validate_negative_duration errorsOnly_def)

subsection \<open>findDuplicates\<close>

lemma char_eq_char_of: "(c = char_of (n::nat)) = (of_char c = n mod 256)"
  by (metis of_char_of char_of_char of_char_mod_256)

lemma char_of_eq_char: "(char_of (n::nat) = c) = (of_char c = n mod 256)"
  by (metis of_char_of char_of_char of_char_mod_256)

lemmas string_eval = string_defs char_eq_char_of char_of_eq_char

lemma findDuplicates_Cons:
  "findDuplicates (n # ns) es =
     (case find (isDuplicateOf n) es of None \<Rightarrow> []
      | Some d \<Rightarrow> [\<lparr> existingSession = d, importedSession = n,
                     matchReason = ''Same subject and start time (within 1 minute)'' \<rparr>])
     @ findDuplicates ns es"
  by (simp add: findDuplicates_def)

lemma findDuplicates_Nil: "findDuplicates [] es = []"
  by (simp add: findDuplicates_def)

lemma withinMinute_iff:
  "withinMinute x y \<longleftrightarrow> (\<exists>a b. x = Some a \<and> y = Some b \<and> \<bar>a - b\<bar> < 60000)"
  by (cases x; cases y) auto

text \<open>
  C5, as the specification states it, fails: \<open>find\<close> stops at the first existing session
  that matches, so a second existing session that meets the same condition is not
  reported with the candidate.
\<close>

theorem second_match_not_reported:
  "isDuplicateOf mathSession (mathSession\<lparr>id' := ''b2'', startTime := Some 3000\<rparr>)
   \<and> findDuplicates [mathSession]
        [mathSession\<lparr>id' := ''b1'', startTime := Some 2000\<rparr>,
         mathSession\<lparr>id' := ''b2'', startTime := Some 3000\<rparr>] =
       [\<lparr> existingSession = mathSession\<lparr>id' := ''b1'', startTime := Some 2000\<rparr>,
          importedSession = mathSession,
          matchReason = ''Same subject and start time (within 1 minute)'' \<rparr>]"
  by (simp add: findDuplicates_def isDuplicateOf_def mathSession_def)

text \<open>
  C5 (amended). The candidates that \<open>findDuplicates\<close> reports are, in their order,
  exactly those for which some existing session matches; each is reported once, paired
  with the first existing session that matches it; and a candidate and an existing
  session match if and only if their subjects are equal after lowercasing and trimming
  and both start times are valid and differ by strictly less than 60000 ms.
\<close>

theorem findDuplicates_first_match:
  "map importedSession (findDuplicates ns es) = filter (\<lambda>n. \<exists>e \<in> set es. isDuplicateOf n e) ns
   \<and> (\<forall>d \<in> set (findDuplicates ns es).
         find (isDuplicateOf (importedSession d)) es = Some (existingSession d))
   \<and> (isDuplicateOf n e \<longleftrightarrow>
         trim (toLowerCase (subject e)) = trim (toLowerCase (subject n))
         \<and> (\<exists>a b. startTime e = Some a \<and> startTime n = Some b \<and> \<bar>a - b\<bar> < 60000))"
proof (intro conjI)
  show "map importedSession (findDuplicates ns es) = filter (\<lambda>n. \<exists>e \<in> set es. isDuplicateOf n e) ns"
  proof (induction ns)
    case Nil
    show ?case by (simp add: findDuplicates_Nil)
  next
    case (Cons n ns)
    show ?case
    proof (cases "find (isDuplicateOf n) es")
      case None
      then have "\<not> (\<exists>e \<in> set es. isDuplicateOf n e)" by (simp add: find_None_iff)
      with None Cons show ?thesis by (simp add: findDuplicates_Cons)
    next
      case (Some d)
      then have "\<exists>e \<in> set es. isDuplicateOf n e"
        by (metis find_None_iff option.distinct(1))
      with Some Cons show ?thesis by (simp add: findDuplicates_Cons)
    qed
  qed
  show "\<forall>d \<in> set (findDuplicates ns es).
          find (isDuplicateOf (importedSession d)) es = Some (existingSession d)"
    by (induction ns) (auto simp: findDuplicates_Nil findDuplicates_Cons split: option.splits)
  show "isDuplicateOf n e \<longleftrightarrow>
          trim (toLowerCase (subject e)) = trim (toLowerCase (subject n))
          \<and> (\<exists>a b. startTime e = Some a \<and> startTime n = Some b \<and> \<bar>a - b\<bar> < 60000)"
    by (simp add: isDuplicateOf_def withinMinute_iff)
qed

lemma math_30_seconds_apart:
  "isDuplicateOf mathSession
     (mathSession\<lparr>id' := ''b1'', subject := '' math '', startTime := Some 31000\<rparr>)"
  by (simp add: isDuplicateOf_def mathSession_def string_eval)

lemma math_90_seconds_apart:
  "\<not> isDuplicateOf mathSession
     (mathSession\<lparr>id' := ''b1'', subject := '' math '', startTime := Some 91000\<rparr>)"
  by (simp add: isDuplicateOf_def mathSession_def string_eval)

theorem findDuplicates_first_match_witness:
  "map importedSession (findDuplicates [mathSession]
      [mathSession\<lparr>id' := ''b1'', subject := '' math '', startTime := Some 31000\<rparr>]) = [mathSession]
   \<and> map importedSession (findDuplicates [mathSession]
      [mathSession\<lparr>id' := ''b1'', subject := '' math '', startTime := Some 91000\<rparr>]) = []"
  using findDuplicates_first_match [of "[mathSession]"
          "[mathSession\<lparr>id' := ''b1'', subject := '' math '', startTime := Some 31000\<rparr>]"]
        findDuplicates_first_match [of "[mathSession]"
          "[mathSession\<lparr>id' := ''b1'', subject := '' math '', startTime := Some 91000\<rparr>]"]
        math_30_seconds_apart math_90_seconds_apart
  by simp

subsection \<open>saveSessions\<close>

lemma isStorageAvailable_eq:
  "isStorageAvailable w =
     (if 16 \<le> quota w then (True, w\<lparr>items := (items w)(''__storage_test__'' := None)\<rparr>) else (False, w))"
  by (simp add: isStorageAvailable_def setItem_def removeItem_def)

lemma validate_types_row: "map type (validateSession h ob r a) = map type (validateSession h ob r' a)"
  by (simp add: validateSession_def Let_def if_distrib [of "map type"] split del: if_split cong: if_cong)

lemma errorsOnly_empty_iff: "errorsOnly es = [] \<longleftrightarrow> Error \<notin> set (map type es)"
  by (force simp: errorsOnly_def filter_empty_conv)

lemma errorsOnly_row: "errorsOnly (validateSession h ob r a) = [] \<longleftrightarrow> errorsOnly (validateSession h ob r' a) = []"
  unfolding errorsOnly_empty_iff using validate_types_row [of h ob r a r'] by simp

lemma set_indexed: "set (indexed xs) = {(i, xs ! i) | i. i < length xs}"
proof -
  have "\<And>i. i < length xs \<Longrightarrow> \<exists>ia. i = [0..<length xs] ! ia \<and> xs ! i = xs ! ia \<and> ia < length xs"
  proof -
    fix i assume "i < length xs"
    then show "\<exists>ia. i = [0..<length xs] ! ia \<and> xs ! i = xs ! ia \<and> ia < length xs"
      by (intro exI [of _ i]) simp
  qed
  then show ?thesis by (auto simp: indexed_def set_zip)
qed

lemma saveErrors_empty_iff:
  "saveErrors h ss = [] \<longleftrightarrow> (\<forall>s \<in> set ss. errorsOnly (validateSession h (toObj s) None False) = [])"
proof -
  have "saveErrors h ss = [] \<longleftrightarrow>
          (\<forall>i < length ss. errorsOnly (validateSession h (toObj (ss ! i)) (Some (i + 1)) False) = [])"
    by (auto simp: saveErrors_def set_indexed)
  also have "\<dots> \<longleftrightarrow> (\<forall>i < length ss. errorsOnly (validateSession h (toObj (ss ! i)) None False) = [])"
    using errorsOnly_row by blast
  also have "\<dots> \<longleftrightarrow> (\<forall>s \<in> set ss. errorsOnly (validateSession h (toObj s) None False) = [])"
    by (metis in_set_conv_nth)
  finally show ?thesis .
qed

lemma saveSessions_eq:
  "saveSessions h ss w =
     (if \<not> 16 \<le> quota w then (Inl (newError ''localStorage not available''), w)
      else if saveErrors h ss \<noteq> [] then
        (Inl (newError (''Cannot save invalid sessions: '' @ join '', '' (map message (saveErrors h ss)))),
         probed w)
      else
        (let text = JSON_stringify h (storageData h ss);
             w1 = (if length text > 5 * 1024 * 1024
                   then warn ''Storage data is getting large, consider data cleanup'' (probed w)
                   else probed w)
         in if length text \<le> quota w
            then (Inr (), w1\<lparr>items := (items (probed w))(STORAGE_KEY \<mapsto> text)\<rparr>)
            else (Inl (newError ''Storage quota exceeded. Please export and clear old data.''), w1)))"
  by (simp add: saveSessions_def isStorageAvailable_eq Let_def setItem_def warn_def probed_def)

lemma saveSessions_failure_keeps_envelope:
  "fst (saveSessions h ss w) = Inl e \<Longrightarrow>
     items (snd (saveSessions h ss w)) STORAGE_KEY = items w STORAGE_KEY"
  by (simp add: saveSessions_eq Let_def warn_def probed_def STORAGE_KEY_def split: if_splits)

lemma saveSessions_invalid:
  assumes "saveErrors h ss \<noteq> []"
  shows "\<exists>e. fst (saveSessions h ss w) = Inl e"
  using assms by (simp add: saveSessions_eq)

lemma saveSessions_valid:
  assumes "saveErrors h ss = []" and "16 \<le> quota w"
    and "length (JSON_stringify h (storageData h ss)) \<le> quota w"
  shows "fst (saveSessions h ss w) = Inr ()"
    and "items (snd (saveSessions h ss w)) =
           (items (probed w))(STORAGE_KEY \<mapsto> JSON_stringify h (storageData h ss))"
  using assms by (simp_all add: saveSessions_eq Let_def warn_def)

lemma stored_document:
  "getProp (toJSON h (storageData h ss)) ''metadata'' =
     Some (JObj [(''version'', JStr CURRENT_VERSION),
                 (''lastModified'', JStr (toISOString h (now h))),
                 (''sessionCount'', JNum (Num (of_nat (length ss)))),
                 (''dataChecksum'',
                    JStr (generateChecksum (serialize h (JArr (map (\<lambda>s. toJSON h (JObj (toObj s))) ss)))))])
   \<and> getProp (toJSON h (storageData h ss)) ''sessions'' =
       Some (JArr (map (\<lambda>s. toJSON h (JObj (toObj s))) ss))"
  by (simp add: storageData_def sessionsValue_def field_def JSON_stringify_def comp_def)

text \<open>
  C1. If some record of the list has an issue of severity error, \<open>saveSessions\<close> throws
  and the item under the storage key is what it was. If no record has one and the store
  accepts the write (the probe and the text fit its quota), the item under the storage
  key becomes the text of a document whose \<open>sessions\<close> are the saved list and whose
  metadata hold the length of the list as \<open>sessionCount\<close> and the checksum of the
  serialized \<open>sessions\<close> as \<open>dataChecksum\<close>. Whatever makes \<open>saveSessions\<close> throw, the item
  under the storage key is what it was.
\<close>

theorem saveSessions_all_or_nothing:
  "((\<exists>s \<in> set ss. errorsOnly (validateSession h (toObj s) None False) \<noteq> []) \<longrightarrow>
      (\<exists>e. fst (saveSessions h ss w) = Inl e)
      \<and> items (snd (saveSessions h ss w)) STORAGE_KEY = items w STORAGE_KEY)
   \<and> ((\<forall>s \<in> set ss. errorsOnly (validateSession h (toObj s) None False) = [])
        \<and> 16 \<le> quota w \<and> length (JSON_stringify h (storageData h ss)) \<le> quota w \<longrightarrow>
      fst (saveSessions h ss w) = Inr ()
      \<and> items (snd (saveSessions h ss w)) STORAGE_KEY = Some (serialize h (toJSON h (storageData h ss)))
      \<and> (\<exists>m elems.
            getProp (toJSON h (storageData h ss)) ''metadata'' = Some m
            \<and> getProp (toJSON h (storageData h ss)) ''sessions'' = Some (JArr elems)
            \<and> elems = map (\<lambda>s. toJSON h (JObj (toObj s))) ss
            \<and> getProp m ''sessionCount'' = Some (JNum (Num (of_nat (length ss))))
            \<and> getProp m ''dataChecksum'' = Some (JStr (generateChecksum (serialize h (JArr elems))))))
   \<and> (\<forall>e. fst (saveSessions h ss w) = Inl e \<longrightarrow>
         items (snd (saveSessions h ss w)) STORAGE_KEY = items w STORAGE_KEY)"
proof (intro conjI impI allI)
  assume "\<exists>s \<in> set ss. errorsOnly (validateSession h (toObj s) None False) \<noteq> []"
  then have bad: "saveErrors h ss \<noteq> []" by (simp add: saveErrors_empty_iff)
  then obtain e where e: "fst (saveSessions h ss w) = Inl e"
    using saveSessions_invalid by blast
  then show "\<exists>e. fst (saveSessions h ss w) = Inl e" by blast
  from e show "items (snd (saveSessions h ss w)) STORAGE_KEY = items w STORAGE_KEY"
    by (rule saveSessions_failure_keeps_envelope)
next
  assume ok: "(\<forall>s \<in> set ss. errorsOnly (validateSession h (toObj s) None False) = [])
        \<and> 16 \<le> quota w \<and> length (JSON_stringify h (storageData h ss)) \<le> quota w"
  then have none: "saveErrors h ss = []" by (simp add: saveErrors_empty_iff)
  from ok show "fst (saveSessions h ss w) = Inr ()"
    by (simp add: saveSessions_valid(1) [OF none])
  from ok show "items (snd (saveSessions h ss w)) STORAGE_KEY = Some (serialize h (toJSON h (storageData h ss)))"
    by (simp add: saveSessions_valid(2) [OF none] JSON_stringify_def)
  show "\<exists>m elems.
            getProp (toJSON h (storageData h ss)) ''metadata'' = Some m
            \<and> getProp (toJSON h (storageData h ss)) ''sessions'' = Some (JArr elems)
            \<and> elems = map (\<lambda>s. toJSON h (JObj (toObj s))) ss
            \<and> getProp m ''sessionCount'' = Some (JNum (Num (of_nat (length ss))))
            \<and> getProp m ''dataChecksum'' = Some (JStr (generateChecksum (serialize h (JArr elems))))"
    using stored_document [of h ss] by (simp add: field_def)
next
  fix e assume "fst (saveSessions h ss w) = Inl e"
  then show "items (snd (saveSessions h ss w)) STORAGE_KEY = items w STORAGE_KEY"
    by (rule saveSessions_failure_keeps_envelope)
qed

lemma mathSession_valid: "validateSession h (toObj mathSession) r a = []"
  by (simp add: validateSession_def toObj_def mathSession_def value_defs string_defs)

lemma mathSession_text_fits:
  "length (JSON_stringify (demoHost []) (storageData (demoHost []) [mathSession])) \<le> 100000"
  by (simp add: JSON_stringify_def storageData_def sessionsValue_def toObj_def mathSession_def
       demo_defs string_eval store_defs generateChecksum_def)

theorem saveSessions_all_or_nothing_witness:
  "(\<exists>e. fst (saveSessions (demoHost []) [mathSession, mathSession\<lparr>duration := Num (-5)\<rparr>]
              (worldWith 100000 [(STORAGE_KEY, ''old'')])) = Inl e)
   \<and> items (snd (saveSessions (demoHost []) [mathSession, mathSession\<lparr>duration := Num (-5)\<rparr>]
              (worldWith 100000 [(STORAGE_KEY, ''old'')]))) STORAGE_KEY = Some ''old''
   \<and> fst (saveSessions (demoHost []) [mathSession] (worldWith 100000 [(STORAGE_KEY, ''old'')])) = Inr ()
   \<and> items (snd (saveSessions (demoHost []) [mathSession] (worldWith 100000 [(STORAGE_KEY, ''old'')])))
         STORAGE_KEY =
       Some (serialize (demoHost []) (toJSON (demoHost []) (storageData (demoHost []) [mathSession])))"
  using saveSessions_all_or_nothing [of "[mathSession, mathSession\<lparr>duration := Num (-5)\<rparr>]"
          "demoHost []" "worldWith 100000 [(STORAGE_KEY, ''old'')]"]
        saveSessions_all_or_nothing [of "[mathSession]" "demoHost []"
          "worldWith 100000 [(STORAGE_KEY, ''old'')]"]
        mathSession_text_fits
  by (simp add: mathSession_valid validate_negative_duration errorsOnly_def worldWith_def)

subsection \<open>loadSessions on a stored document\<close>

lemma probed_simps:
  "quota (probed w) = quota w" "console (probed w) = console w" "generated (probed w) = generated w"
  "items (probed w) STORAGE_KEY = items w STORAGE_KEY"
  "items (probed w) LEGACY_SESSIONS_KEY = items w LEGACY_SESSIONS_KEY"
  by (simp_all add: probed_def STORAGE_KEY_def LEGACY_SESSIONS_KEY_def)

lemma isStorageAvailable_probed:
  "isStorageAvailable w = (if 16 \<le> quota w then (True, probed w) else (False, w))"
  by (simp add: isStorageAvailable_eq probed_def)

lemma loadSessions_stored:
  assumes "16 \<le> quota w" and "items w STORAGE_KEY = Some stored" and "stored \<noteq> []"
    and "parseStored h stored = Some (m, sessions, revived)"
    and "getProp m ''dataChecksum'' = Some c"
  shows "loadSessions h w =
    (map asSession (validOnly h revived),
     (probed w)\<lparr>console := console w
        @ (if truthy c \<and> c \<noteq> JStr (generateChecksum (JSON_stringify h sessions))
           then [ConsoleWarn integrityWarning] else [])
        @ invalidSessionWarnings h revived\<rparr>)"
  using assms
  by (simp add: loadSessions_def isStorageAvailable_probed getItem_def probed_simps warn_def Let_def)

lemma indexed_Nil: "indexed [] = []"
  by (simp add: indexed_def)

lemma indexed_Cons: "indexed (x # xs) = (0, x) # map (\<lambda>p. (Suc (fst p), snd p)) (indexed xs)"
proof -
  have "[0..<Suc (length xs)] = 0 # map Suc [0..<length xs]"
    by (simp add: upt_conv_Cons map_Suc_upt del: upt_Suc)
  then show ?thesis
    by (simp add: indexed_def zip_map1 case_prod_beta del: upt_Suc)
qed

lemma toStringRadix_nonempty: "toStringRadix b n \<noteq> []"
  by (induction b n rule: toStringRadix.induct) (subst toStringRadix.simps, simp)

lemma decimal_nonempty: "decimal n \<noteq> []"
  by (simp add: decimal_def toStringRadix_nonempty)

lemma demoSerialize_nonempty: "demoSerialize v \<noteq> []"
proof (cases v)
  case (JNum n)
  then show ?thesis
    by (cases n) (simp_all add: signedDecimal_def decimal_def toStringRadix_nonempty)
qed (simp_all add: quote_def)

lemma demoHost_parses_first: "parseJSON ((demoHost (d # ds))\<lparr>now := n\<rparr>) (demoSerialize d) = Some d"
  by (simp add: demoHost_def)

lemma field_toObj:
  "field (toObj s) ''id'' = JStr (id' s)"
  "field (toObj s) ''subject'' = JStr (subject s)"
  "field (toObj s) ''duration'' = JNum (duration s)"
  "field (toObj s) ''startTime'' = JDate (startTime s)"
  "field (toObj s) ''endTime'' = (case endTime s of None \<Rightarrow> JUndefined | Some e \<Rightarrow> JDate e)"
  "field (toObj s) ''completed'' = JBool (completed s)"
  by (simp_all add: toObj_def field_def split: option.splits)

lemma field_append_undefined:
  "field (ob @ [(k, JUndefined)]) k' = field ob k'"
  by (auto simp: field_def map_add_def split: option.splits if_splits)

lemma validate_fields:
  assumes "field ob ''id'' = field ob' ''id''" "field ob ''subject'' = field ob' ''subject''"
    "field ob ''duration'' = field ob' ''duration''" "field ob ''startTime'' = field ob' ''startTime''"
    "field ob ''endTime'' = field ob' ''endTime''" "field ob ''completed'' = field ob' ''completed''"
  shows "validateSession h ob r a = validateSession h ob' r a"
  unfolding validateSession_def assms ..

lemma validate_typed:
  "errorsOnly (validateSession h (toObj s) r False) = [] \<longleftrightarrow>
     id' s \<noteq> [] \<and> trim (subject s) \<noteq> [] \<and> \<not> leqZero (duration s) \<and> startTime s \<noteq> None
     \<and> endTime s \<noteq> Some None"
proof -
  have sub [simp]: "trim [] = []"
    by (simp add: trim_def)
  show ?thesis
    unfolding validateSession_def Let_def field_toObj errorsOnly_def
    by (cases "endTime s") (auto split: option.splits)
qed

subsection \<open>getSessionStats\<close>

lemma stats_revive:
  "revive statsHost (sessionJSON i (CHR ''T'' # ds) c) =
     Some [(''id'', JStr i), (''subject'', JStr ''Math''), (''duration'', JNum (Num 25)),
           (''startTime'', JDate (map_option int (digitsValue ds))), (''completed'', JBool c),
           (''endTime'', JUndefined)]"
  by (simp add: revive_def sessionJSON_def field_def statsHost_def demoHost_def)

lemma digits_eval:
  "digitsValue ''1699952400000'' = Some 1699952400000"
  "digitsValue ''1699466400000'' = Some 1699466400000"
  "digitsValue ''1696528800000'' = Some 1696528800000"
  "digitsValue ''1699956000000'' = Some 1699956000000"
  by (simp_all add: digitsValue_def isDigit_def)

lemma timeClip_int: "\<bar>x\<bar> \<le> 8640000000000000 \<Longrightarrow> timeClip (Num (of_int x)) = Some x"
proof -
  assume a: "\<bar>x\<bar> \<le> 8640000000000000"
  have "\<bar>(of_int x :: rat)\<bar> = of_int \<bar>x\<bar>" by simp
  also have "\<dots> \<le> of_int 8640000000000000" using a by (simp only: of_int_le_iff)
  finally have "\<bar>(of_int x :: rat)\<bar> \<le> 8640000000000000" by simp
  then show ?thesis by simp
qed

lemma timeGe_Some: "timeGe d (Some m) \<longleftrightarrow> (\<exists>t. d = Some t \<and> m \<le> t)"
  by (cases d) auto

text \<open>
  C7. When the local midnight of the current day is a time value at least 30 days above
  the lower end of the range of \<open>Date\<close>, the three counts are the numbers of loaded
  sessions that are completed and whose \<open>startTime\<close> is on or after that midnight, that
  midnight minus 7 days of 24 hours, and that midnight minus 30 days of 24 hours; a
  session that is not completed is counted in none of them.
\<close>

theorem getSessionStats_counts:
  assumes "- 8640000000000000 + 30 * 24 * 60 * 60 * 1000 \<le> startOfDay h (now h)"
    and "startOfDay h (now h) \<le> 8640000000000000"
  shows "fst (getSessionStats h w) =
    \<lparr> daily = length (filter (\<lambda>s. completed s \<and> (\<exists>t. startTime s = Some t \<and> startOfDay h (now h) \<le> t))
                     (fst (loadSessions h w))),
      weekly = length (filter (\<lambda>s. completed s
                         \<and> (\<exists>t. startTime s = Some t \<and> startOfDay h (now h) - 7 * 24 * 60 * 60 * 1000 \<le> t))
                     (fst (loadSessions h w))),
      monthly = length (filter (\<lambda>s. completed s
                         \<and> (\<exists>t. startTime s = Some t \<and> startOfDay h (now h) - 30 * 24 * 60 * 60 * 1000 \<le> t))
                     (fst (loadSessions h w))) \<rparr>"
proof -
  have w: "timeClip (Num (of_int (startOfDay h (now h) - 7 * 24 * 60 * 60 * 1000))) =
             Some (startOfDay h (now h) - 7 * 24 * 60 * 60 * 1000)"
    using assms by (intro timeClip_int) simp
  have m: "timeClip (Num (of_int (startOfDay h (now h) - 30 * 24 * 60 * 60 * 1000))) =
             Some (startOfDay h (now h) - 30 * 24 * 60 * 60 * 1000)"
    using assms by (intro timeClip_int) simp
  show ?thesis
    unfolding getSessionStats_def Let_def w m
    by (simp add: split_beta timeGe_Some)
qed

lemma stats_parseStored:
  "parseStored statsHost (demoSerialize statsDoc) =
     Some (JObj [(''version'', JStr ''1.0.0''), (''sessionCount'', JNum (Num 4))],
           JArr [sessionJSON ''s1'' ''T1699952400000'' True, sessionJSON ''s2'' ''T1699466400000'' True,
                 sessionJSON ''s3'' ''T1696528800000'' True, sessionJSON ''s4'' ''T1699956000000'' False],
           statsRevived)"
proof -
  have p: "parseJSON statsHost (demoSerialize statsDoc) = Some statsDoc"
    unfolding statsHost_def by (rule demoHost_parses_first)
  show ?thesis
    unfolding parseStored_def p
    by (simp add: statsDoc_def field_def reviveAll_def stats_revive digits_eval
          statsRevived_def statsSessions_def toObj_def)
qed

lemma fields_revived:
  "field (toObj s @ [(''endTime'', JUndefined)]) k = field (toObj s) k"
  by (rule field_append_undefined)

lemma stats_valid: "validOnly statsHost statsRevived = statsRevived"
proof -
  have v: "\<And>s i. hasErrors statsHost (i, toObj s @ [(''endTime'', JUndefined)]) =
             (errorsOnly (validateSession statsHost (toObj s) (Some (i + 1)) False) \<noteq> [])"
    unfolding hasErrors_def
    by (simp add: validate_fields [OF fields_revived fields_revived fields_revived fields_revived
          fields_revived fields_revived])
  show ?thesis
    unfolding validOnly_def statsRevived_def statsSessions_def
    by (simp add: indexed_Nil indexed_Cons v validate_typed trim_def isWhiteSpace_def)
qed

lemma stats_asSession: "map asSession statsRevived = statsSessions"
  by (simp add: statsRevived_def statsSessions_def asSession_def fields_revived field_toObj)

lemma stats_loaded: "fst (loadSessions statsHost statsWorld) = statsSessions"
proof -
  have "loadSessions statsHost statsWorld =
    (map asSession (validOnly statsHost statsRevived),
     (probed statsWorld)\<lparr>console := console statsWorld
        @ (if truthy JUndefined \<and> JUndefined \<noteq> JStr (generateChecksum (JSON_stringify statsHost
              (JArr [sessionJSON ''s1'' ''T1699952400000'' True, sessionJSON ''s2'' ''T1699466400000'' True,
                 sessionJSON ''s3'' ''T1696528800000'' True, sessionJSON ''s4'' ''T1699956000000'' False])))
           then [ConsoleWarn integrityWarning] else [])
        @ invalidSessionWarnings statsHost statsRevived\<rparr>)"
    by (rule loadSessions_stored [OF _ _ _ stats_parseStored])
       (simp_all add: statsWorld_def worldWith_def demoSerialize_nonempty field_def)
  then show ?thesis by (simp add: stats_valid stats_asSession)
qed

theorem getSessionStats_counts_witness:
  "fst (getSessionStats statsHost statsWorld) = \<lparr> daily = 1, weekly = 2, monthly = 2 \<rparr>"
proof -
  have d: "startOfDay statsHost (now statsHost) = 1699920000000"
    by (simp add: statsHost_def demoHost_def statsNow_def)
  show ?thesis
    using getSessionStats_counts [of statsHost statsWorld]
    unfolding d stats_loaded by (simp add: statsSessions_def)
qed

subsection \<open>validateCSVFile\<close>

lemma migrate_generated: "generated (snd (migrateLegacyData h w)) = generated w"
  by (simp add: migrateLegacyData_def Let_def removeItem_def warn_def logError_def
      split: option.splits)

lemma save_generated: "generated (snd (saveSessions h ss w)) = generated w"
  by (simp add: saveSessions_eq Let_def warn_def probed_def)

lemma load_generated: "generated (snd (loadSessions h w)) = generated w"
proof (cases "16 \<le> quota w")
  case False
  then show ?thesis by (simp add: loadSessions_def isStorageAvailable_probed warn_def)
next
  case True
  show ?thesis
  proof (cases "present (getItem (probed w) STORAGE_KEY)")
    case None
    obtain ms w1 where m: "migrateLegacyData h (probed w) = (ms, w1)" by (cases "migrateLegacyData h (probed w)")
    have g1: "generated w1 = generated w"
      using migrate_generated [of h "probed w"] m by (simp add: probed_simps)
    obtain r w2 where s: "saveSessions h ms w1 = (r, w2)" by (cases "saveSessions h ms w1")
    have g2: "generated w2 = generated w"
      using save_generated [of h ms w1] s g1 by simp
    show ?thesis
      using True None m s g1 g2 migrate_generated [of h "logError ''Failed to load sessions:'' w2"]
      by (cases r) (simp_all add: loadSessions_def isStorageAvailable_probed logError_def)
  next
    case (Some stored)
    show ?thesis
      using True Some migrate_generated [of h "logError ''Failed to load sessions:'' (probed w)"]
      by (simp add: loadSessions_def isStorageAvailable_probed logError_def probed_simps
            warn_def Let_def split: option.splits)
  qed
qed

lemma count_distinct:
  "distinct xs \<Longrightarrow> length (filter (\<lambda>x. x = c) xs) = (if c \<in> set xs then 1 else 0)"
  by (induction xs) auto

lemma missing_count:
  "length (filter (\<lambda>e. type e = Error \<and> column e = Some c)
     (map missingColumn (filter (\<lambda>c. c \<notin> set headers) requiredColumns))) =
   (if c \<in> set requiredColumns \<and> c \<notin> set headers then 1 else 0)"
proof -
  have d: "distinct (filter (\<lambda>c. c \<notin> set headers) requiredColumns)"
    by (rule distinct_filter) (simp add: requiredColumns_def)
  have "length (filter (\<lambda>e. type e = Error \<and> column e = Some c)
          (map missingColumn (filter (\<lambda>c. c \<notin> set headers) requiredColumns))) =
        length (filter (\<lambda>x. x = c) (filter (\<lambda>c. c \<notin> set headers) requiredColumns))"
    unfolding filter_map length_map comp_def by (simp add: missingColumn_def)
  also have "\<dots> = (if c \<in> set (filter (\<lambda>c. c \<notin> set headers) requiredColumns) then 1 else 0)"
    by (rule count_distinct [OF d])
  finally show ?thesis by simp
qed

lemma validateCSVFile_missing:
  assumes "fileSize f \<le> MAX_FILE_SIZE"
    and "endsWith (toLowerCase (fileName f)) ''.csv'' \<or> fileType f = ''text/csv''"
    and "fileText f = Some txt" and "papaParse h txt = (headers, rows)"
    and "\<exists>c \<in> set requiredColumns. c \<notin> set headers"
  shows "validateCSVFile h f w =
    (Inr \<lparr> totalRows = length rows, validRows = 0,
           errors = map missingColumn (filter (\<lambda>c. c \<notin> set headers) requiredColumns),
           sampleData = [], duplicates = [], generatedIds = 0 \<rparr>,
     snd (loadSessions h w))"
proof -
  have ne: "filter (\<lambda>c. c \<notin> set headers) requiredColumns \<noteq> []"
    using assms(5) by (simp add: filter_empty_conv)
  show ?thesis
    using assms(1-4) ne
    by (simp add: validateCSVFile_def Let_def split_beta findDuplicates_Nil)
qed

text \<open>
  C6. When the file passes the size and type checks and its header lacks a required
  column, the preview has no valid row and no candidate, counts all rows, draws no
  identifier, and its issues are one error for each missing required column, in the
  order of \<open>requiredColumns\<close>, naming that column; the row loop is not entered.
\<close>

theorem missing_column_aborts:
  assumes "fileSize f \<le> MAX_FILE_SIZE"
    and "endsWith (toLowerCase (fileName f)) ''.csv'' \<or> fileType f = ''text/csv''"
    and "fileText f = Some txt" and "papaParse h txt = (headers, rows)"
    and "\<exists>c \<in> set requiredColumns. c \<notin> set headers"
  shows "\<exists>p. fst (validateCSVFile h f w) = Inr p
           \<and> totalRows p = length rows \<and> validRows p = 0 \<and> sampleData p = []
           \<and> duplicates p = [] \<and> generatedIds p = 0
           \<and> errors p = map missingColumn (filter (\<lambda>c. c \<notin> set headers) requiredColumns)
           \<and> (\<forall>c. length (filter (\<lambda>e. type e = Error \<and> column e = Some c) (errors p)) =
                    (if c \<in> set requiredColumns \<and> c \<notin> set headers then 1 else 0))
           \<and> (\<forall>e \<in> set (errors p). type e = Error)
           \<and> generated (snd (validateCSVFile h f w)) = generated w"
proof -
  let ?p = "\<lparr> totalRows = length rows, validRows = 0,
           errors = map missingColumn (filter (\<lambda>c. c \<notin> set headers) requiredColumns),
           sampleData = [], duplicates = [], generatedIds = 0 \<rparr>"
  note r = validateCSVFile_missing [OF assms, of w]
  have 1: "fst (validateCSVFile h f w) = Inr ?p" by (simp add: r)
  have 2: "\<forall>c. length (filter (\<lambda>e. type e = Error \<and> column e = Some c) (errors ?p)) =
                    (if c \<in> set requiredColumns \<and> c \<notin> set headers then 1 else 0)"
    by (simp only: importPreview.select_convs missing_count simp_thms)
  have 3: "\<forall>e \<in> set (errors ?p). type e = Error"
    by (simp add: missingColumn_def)
  have 4: "generated (snd (validateCSVFile h f w)) = generated w"
    by (simp add: r load_generated)
  show ?thesis
  proof (intro exI [of _ ?p] conjI)
    show "fst (validateCSVFile h f w) = Inr ?p" by (rule 1)
    show "\<forall>c. length (filter (\<lambda>e. type e = Error \<and> column e = Some c) (errors ?p)) =
                    (if c \<in> set requiredColumns \<and> c \<notin> set headers then 1 else 0)" by (rule 2)
    show "\<forall>e \<in> set (errors ?p). type e = Error" by (rule 3)
    show "generated (snd (validateCSVFile h f w)) = generated w" by (rule 4)
  qed simp_all
qed

lemma noDuration_parsed:
  "papaParse (demoHost []) (''subject,startTime,completed'' @ [CHR 0x0A] @ ''Math,T1000,true'') =
     ([''subject'', ''startTime'', ''completed''],
      [[(''subject'', ''Math''), (''startTime'', ''T1000''), (''completed'', ''true'')]])"
  by (simp add: demoHost_def demoPapaParse_def)

theorem missing_column_aborts_witness:
  "fst (validateCSVFile (demoHost []) noDurationFile (emptyWorld 1000)) =
     Inr \<lparr> totalRows = 1, validRows = 0, errors = [missingColumn ''duration''],
           sampleData = [], duplicates = [], generatedIds = 0 \<rparr>"
proof -
  have "\<exists>p. fst (validateCSVFile (demoHost []) noDurationFile (emptyWorld 1000)) = Inr p
           \<and> totalRows p = length [[(''subject'', ''Math''), (''startTime'', ''T1000''), (''completed'', ''true'')]]
           \<and> validRows p = 0 \<and> sampleData p = []
           \<and> duplicates p = [] \<and> generatedIds p = 0
           \<and> errors p = map missingColumn (filter (\<lambda>c. c \<notin> set [''subject'', ''startTime'', ''completed'']) requiredColumns)
           \<and> (\<forall>c. length (filter (\<lambda>e. type e = Error \<and> column e = Some c) (errors p)) =
                    (if c \<in> set requiredColumns \<and> c \<notin> set [''subject'', ''startTime'', ''completed''] then 1 else 0))
           \<and> (\<forall>e \<in> set (errors p). type e = Error)
           \<and> generated (snd (validateCSVFile (demoHost []) noDurationFile (emptyWorld 1000))) = generated (emptyWorld 1000)"
    by (rule missing_column_aborts [OF _ _ _ noDuration_parsed])
       (simp_all add: noDurationFile_def MAX_FILE_SIZE_def endsWith_def string_eval requiredColumns_def)
  then obtain p where p: "fst (validateCSVFile (demoHost []) noDurationFile (emptyWorld 1000)) = Inr p"
    "totalRows p = 1" "validRows p = 0" "sampleData p = []" "duplicates p = []" "generatedIds p = 0"
    "errors p = [missingColumn ''duration'']"
    by (auto simp: requiredColumns_def)
  then show ?thesis by simp
qed

subsection \<open>loadSessions: the integrity check\<close>

lemma parseStored_envelope:
  assumes "parseJSON h stored = Some data" and "getProp data ''metadata'' = Some m" and "truthy m"
    and "getProp data ''sessions'' = Some (JArr elems)" and "mapM (revive h) elems = Some revived"
  shows "parseStored h stored = Some (m, JArr elems, revived)"
  using assms by (simp add: parseStored_def reviveAll_def)

lemma revive_defined: "v \<noteq> JNull \<Longrightarrow> v \<noteq> JUndefined \<Longrightarrow> \<exists>ob. revive h v = Some ob"
  by (cases v) (simp_all add: revive_def Let_def)

lemma mapM_revive_defined:
  "JNull \<notin> set elems \<Longrightarrow> JUndefined \<notin> set elems \<Longrightarrow> \<exists>revived. mapM (revive h) elems = Some revived"
proof (induction elems)
  case Nil
  show ?case by simp
next
  case (Cons v vs)
  then obtain ob where "revive h v = Some ob" using revive_defined [of v h] by auto
  moreover obtain obs where "mapM (revive h) vs = Some obs" using Cons by auto
  ultimately show ?case by simp
qed

lemma integrity_not_invalid: "ConsoleWarn integrityWarning \<notin> set (invalidSessionWarnings h revived)"
  by (auto simp: invalidSessionWarnings_def integrityWarning_def)

text \<open>
  C4. Take a store that is available and holds, under the storage key, a text that
  parses to a document with \<open>metadata\<close> and an array \<open>sessions\<close> none of whose elements
  is \<open>null\<close>. If \<open>metadata.dataChecksum\<close> is present (truthy) and differs from the
  checksum of the re-serialized \<open>sessions\<close>, \<open>loadSessions\<close> logs the integrity warning
  (before the warnings for the records it drops), returns the stored sessions that
  pass validation, and leaves the stored text in place.
\<close>

theorem checksum_mismatch_still_loads:
  assumes "16 \<le> quota w" and "items w STORAGE_KEY = Some stored" and "stored \<noteq> []"
    and "parseJSON h stored = Some data" and "getProp data ''metadata'' = Some m" and "truthy m"
    and "getProp data ''sessions'' = Some (JArr elems)" and "mapM (revive h) elems = Some revived"
    and "getProp m ''dataChecksum'' = Some c" and "truthy c"
    and "c \<noteq> JStr (generateChecksum (JSON_stringify h (JArr elems)))"
  shows "fst (loadSessions h w) = map asSession (validOnly h revived)
       \<and> console (snd (loadSessions h w)) =
           console w @ [ConsoleWarn integrityWarning] @ invalidSessionWarnings h revived
       \<and> items (snd (loadSessions h w)) STORAGE_KEY = Some stored"
proof -
  note p = parseStored_envelope [OF assms(4-8)]
  note l = loadSessions_stored [OF assms(1-3) p assms(9)]
  show ?thesis using assms(2,10,11) by (simp add: l probed_simps)
qed

text \<open>
  C10. For the same kind of store, if \<open>metadata.dataChecksum\<close> is absent or falsy (the
  empty string included), \<open>loadSessions\<close> logs nothing but the warnings for the records
  it drops, so no integrity warning, whatever the sessions are; and it returns the
  same sessions and logs the same messages as for a stored text with the same
  \<open>sessions\<close> whose \<open>dataChecksum\<close> is the matching checksum.
\<close>

theorem absent_checksum_not_checked:
  assumes "16 \<le> quota w" and "items w STORAGE_KEY = Some stored" and "stored \<noteq> []"
    and "parseJSON h stored = Some data" and "getProp data ''metadata'' = Some m" and "truthy m"
    and "getProp data ''sessions'' = Some (JArr elems)" and "mapM (revive h) elems = Some revived"
    and "getProp m ''dataChecksum'' = Some c" and "\<not> truthy c"
    and "stored' \<noteq> []" and "parseJSON h stored' = Some data'"
    and "getProp data' ''metadata'' = Some m'" and "truthy m'"
    and "getProp data' ''sessions'' = Some (JArr elems)"
    and "getProp m' ''dataChecksum'' = Some (JStr (generateChecksum (JSON_stringify h (JArr elems))))"
  shows "fst (loadSessions h w) = map asSession (validOnly h revived)
       \<and> console (snd (loadSessions h w)) = console w @ invalidSessionWarnings h revived
       \<and> ConsoleWarn integrityWarning \<notin> set (invalidSessionWarnings h revived)
       \<and> fst (loadSessions h (w\<lparr>items := (items w)(STORAGE_KEY \<mapsto> stored')\<rparr>)) = fst (loadSessions h w)
       \<and> console (snd (loadSessions h (w\<lparr>items := (items w)(STORAGE_KEY \<mapsto> stored')\<rparr>))) =
           console (snd (loadSessions h w))"
proof -
  note p = parseStored_envelope [OF assms(4-8)]
  note l = loadSessions_stored [OF assms(1-3) p assms(9)]
  note p' = parseStored_envelope [OF assms(12-15) assms(8)]
  have l': "loadSessions h (w\<lparr>items := (items w)(STORAGE_KEY \<mapsto> stored')\<rparr>) =
    (map asSession (validOnly h revived),
     (probed (w\<lparr>items := (items w)(STORAGE_KEY \<mapsto> stored')\<rparr>))\<lparr>console := console w
        @ (if truthy (JStr (generateChecksum (JSON_stringify h (JArr elems))))
              \<and> JStr (generateChecksum (JSON_stringify h (JArr elems)))
                  \<noteq> JStr (generateChecksum (JSON_stringify h (JArr elems)))
           then [ConsoleWarn integrityWarning] else [])
        @ invalidSessionWarnings h revived\<rparr>)"
    using loadSessions_stored [OF _ _ assms(11) p' assms(16), of "w\<lparr>items := (items w)(STORAGE_KEY \<mapsto> stored')\<rparr>"]
      assms(1) by simp
  show ?thesis using assms(10) by (simp add: l l' integrity_not_invalid)
qed

lemma demoHost_parses_head: "parseJSON (demoHost (d # ds)) (demoSerialize d) = Some d"
  by (simp add: demoHost_def)

lemma demoHost_parses_next:
  "demoSerialize d1 \<noteq> demoSerialize d2 \<Longrightarrow> parseJSON (demoHost (d1 # d2 # ds)) (demoSerialize d2) = Some d2"
  by (simp add: demoHost_def)

lemma revive_sessionJSON:
  assumes "dateParse h = demoDateParse"
  shows "revive h (sessionJSON i (CHR ''T'' # ds) c) =
     Some (toObj \<lparr> id' = i, subject = ''Math'', duration = Num 25,
                    startTime = map_option int (digitsValue ds), endTime = None, completed = c \<rparr>
           @ [(''endTime'', JUndefined)])"
  by (simp add: revive_def sessionJSON_def field_def assms toObj_def)

lemma hasErrors_revived:
  "hasErrors h (i, toObj s @ [(''endTime'', JUndefined)]) =
     (errorsOnly (validateSession h (toObj s) (Some (i + 1)) False) \<noteq> [])"
  unfolding hasErrors_def
  by (simp add: validate_fields [OF fields_revived fields_revived fields_revived fields_revived
        fields_revived fields_revived])

lemma toJSON_sessionJSON: "toJSON h (sessionJSON i t c) = sessionJSON i t c"
  by (simp add: sessionJSON_def)

lemma tampered_checksum:
  "JStr ''tampered'' \<noteq> JStr (generateChecksum (JSON_stringify (demoHost [tamperedDoc])
      (JArr [sessionJSON ''s1'' ''T1699952400000'' True])))"
  by (simp add: JSON_stringify_def toJSON_sessionJSON demoHost_def sessionJSON_def quote_def
        signedDecimal_def decimal_def digitChar_def generateChecksum_def char_eq_char_of char_of_eq_char)

lemma demoHost_dateParse: "dateParse (demoHost ds) = demoDateParse"
  by (simp add: demoHost_def)

lemma tampered_revived:
  "mapM (revive (demoHost [tamperedDoc])) [sessionJSON ''s1'' ''T1699952400000'' True] =
     Some [toObj s1Session @ [(''endTime'', JUndefined)]]"
  by (simp add: revive_sessionJSON [OF demoHost_dateParse] digits_eval s1Session_def)

lemma s1_valid: "validOnly h [toObj s1Session @ [(''endTime'', JUndefined)]] = [toObj s1Session @ [(''endTime'', JUndefined)]]"
  by (simp add: validOnly_def indexed_Nil indexed_Cons hasErrors_revived validate_typed s1Session_def
        trim_def isWhiteSpace_def)

lemma s1_no_warnings: "invalidSessionWarnings h [toObj s1Session @ [(''endTime'', JUndefined)]] = []"
  by (simp add: invalidSessionWarnings_def indexed_Nil indexed_Cons hasErrors_revived validate_typed
        s1Session_def trim_def isWhiteSpace_def)

lemma asSession_revived: "asSession (toObj s @ [(''endTime'', JUndefined)]) = s\<lparr>endTime := (case endTime s of Some d \<Rightarrow> Some d | None \<Rightarrow> None)\<rparr>"
  by (cases "endTime s") (simp_all add: asSession_def fields_revived field_toObj)

theorem checksum_mismatch_still_loads_witness:
  "fst (loadSessions (demoHost [tamperedDoc]) tamperedWorld) = [s1Session]
   \<and> console (snd (loadSessions (demoHost [tamperedDoc]) tamperedWorld)) = [ConsoleWarn integrityWarning]
   \<and> items (snd (loadSessions (demoHost [tamperedDoc]) tamperedWorld)) STORAGE_KEY =
       Some (demoSerialize tamperedDoc)"
proof -
  have "fst (loadSessions (demoHost [tamperedDoc]) tamperedWorld) =
          map asSession (validOnly (demoHost [tamperedDoc]) [toObj s1Session @ [(''endTime'', JUndefined)]])
       \<and> console (snd (loadSessions (demoHost [tamperedDoc]) tamperedWorld)) =
           console tamperedWorld @ [ConsoleWarn integrityWarning]
             @ invalidSessionWarnings (demoHost [tamperedDoc]) [toObj s1Session @ [(''endTime'', JUndefined)]]
       \<and> items (snd (loadSessions (demoHost [tamperedDoc]) tamperedWorld)) STORAGE_KEY =
           Some (demoSerialize tamperedDoc)"
  proof (rule checksum_mismatch_still_loads [where data = tamperedDoc
        and m = "JObj [(''version'', JStr ''1.0.0''), (''sessionCount'', JNum (Num 1)),
                       (''dataChecksum'', JStr ''tampered'')]"
        and elems = "[sessionJSON ''s1'' ''T1699952400000'' True]" and c = "JStr ''tampered''"])
    show "16 \<le> quota tamperedWorld" by (simp add: tamperedWorld_def worldWith_def)
    show "items tamperedWorld STORAGE_KEY = Some (demoSerialize tamperedDoc)"
      by (simp add: tamperedWorld_def worldWith_def)
    show "demoSerialize tamperedDoc \<noteq> []" by (rule demoSerialize_nonempty)
    show "parseJSON (demoHost [tamperedDoc]) (demoSerialize tamperedDoc) = Some tamperedDoc"
      by (rule demoHost_parses_head)
    show "getProp tamperedDoc ''metadata'' =
            Some (JObj [(''version'', JStr ''1.0.0''), (''sessionCount'', JNum (Num 1)),
                        (''dataChecksum'', JStr ''tampered'')])"
      by (simp add: tamperedDoc_def field_def)
    show "getProp tamperedDoc ''sessions'' = Some (JArr [sessionJSON ''s1'' ''T1699952400000'' True])"
      by (simp add: tamperedDoc_def field_def)
    show "mapM (revive (demoHost [tamperedDoc])) [sessionJSON ''s1'' ''T1699952400000'' True] =
            Some [toObj s1Session @ [(''endTime'', JUndefined)]]"
      by (rule tampered_revived)
    show "JStr ''tampered'' \<noteq> JStr (generateChecksum (JSON_stringify (demoHost [tamperedDoc])
            (JArr [sessionJSON ''s1'' ''T1699952400000'' True])))"
      by (rule tampered_checksum)
  qed (simp_all add: field_def)
  then show ?thesis
    unfolding s1_valid s1_no_warnings
    by (simp add: asSession_revived s1Session_def tamperedWorld_def worldWith_def)
qed

lemma statsRevived_valid: "validOnly h statsRevived = statsRevived"
  unfolding validOnly_def statsRevived_def statsSessions_def
  by (simp add: indexed_Nil indexed_Cons hasErrors_revived validate_typed trim_def isWhiteSpace_def)

lemma statsRevived_no_warnings: "invalidSessionWarnings h statsRevived = []"
  unfolding invalidSessionWarnings_def statsRevived_def statsSessions_def
  by (simp add: indexed_Nil indexed_Cons hasErrors_revived validate_typed trim_def isWhiteSpace_def)

lemma stats_elems_revived:
  "mapM (revive (demoHost ds))
     [sessionJSON ''s1'' ''T1699952400000'' True, sessionJSON ''s2'' ''T1699466400000'' True,
      sessionJSON ''s3'' ''T1696528800000'' True, sessionJSON ''s4'' ''T1699956000000'' False] =
   Some statsRevived"
  by (simp add: revive_sessionJSON [OF demoHost_dateParse] digits_eval statsRevived_def statsSessions_def)

lemma stats_texts_differ: "demoSerialize statsDoc \<noteq> demoSerialize matchedDoc"
  by (simp add: statsDoc_def matchedDoc_def quote_def signedDecimal_def decimal_def digitChar_def
        char_eq_char_of char_of_eq_char)

lemma stringify_stats_elems:
  "JSON_stringify (demoHost ds)
     (JArr [sessionJSON ''s1'' ''T1699952400000'' True, sessionJSON ''s2'' ''T1699466400000'' True,
            sessionJSON ''s3'' ''T1696528800000'' True, sessionJSON ''s4'' ''T1699956000000'' False]) =
   demoSerialize
     (JArr [sessionJSON ''s1'' ''T1699952400000'' True, sessionJSON ''s2'' ''T1699466400000'' True,
            sessionJSON ''s3'' ''T1696528800000'' True, sessionJSON ''s4'' ''T1699956000000'' False])"
  by (simp add: JSON_stringify_def toJSON_sessionJSON demoHost_def del: demoSerialize.simps)

theorem absent_checksum_not_checked_witness:
  "fst (loadSessions checkHost statsWorld) = statsSessions
   \<and> console (snd (loadSessions checkHost statsWorld)) = []
   \<and> fst (loadSessions checkHost
        (statsWorld\<lparr>items := (items statsWorld)(STORAGE_KEY \<mapsto> demoSerialize matchedDoc)\<rparr>)) = statsSessions
   \<and> console (snd (loadSessions checkHost
        (statsWorld\<lparr>items := (items statsWorld)(STORAGE_KEY \<mapsto> demoSerialize matchedDoc)\<rparr>))) = []"
proof -
  let ?elems = "[sessionJSON ''s1'' ''T1699952400000'' True, sessionJSON ''s2'' ''T1699466400000'' True,
      sessionJSON ''s3'' ''T1696528800000'' True, sessionJSON ''s4'' ''T1699956000000'' False]"
  let ?w' = "statsWorld\<lparr>items := (items statsWorld)(STORAGE_KEY \<mapsto> demoSerialize matchedDoc)\<rparr>"
  have "fst (loadSessions checkHost statsWorld) = map asSession (validOnly checkHost statsRevived)
       \<and> console (snd (loadSessions checkHost statsWorld)) =
           console statsWorld @ invalidSessionWarnings checkHost statsRevived
       \<and> ConsoleWarn integrityWarning \<notin> set (invalidSessionWarnings checkHost statsRevived)
       \<and> fst (loadSessions checkHost ?w') = fst (loadSessions checkHost statsWorld)
       \<and> console (snd (loadSessions checkHost ?w')) = console (snd (loadSessions checkHost statsWorld))"
  proof (rule absent_checksum_not_checked [where data = statsDoc and data' = matchedDoc
        and stored = "demoSerialize statsDoc"
        and m = "JObj [(''version'', JStr ''1.0.0''), (''sessionCount'', JNum (Num 4))]"
        and m' = "JObj [(''version'', JStr ''1.0.0''), (''sessionCount'', JNum (Num 4)),
                  (''dataChecksum'', JStr (generateChecksum (demoSerialize (JArr ?elems))))]"
        and elems = ?elems and c = JUndefined])
    show "16 \<le> quota statsWorld" by (simp add: statsWorld_def worldWith_def)
    show "items statsWorld STORAGE_KEY = Some (demoSerialize statsDoc)"
      by (simp add: statsWorld_def worldWith_def)
    show "demoSerialize statsDoc \<noteq> []" by (rule demoSerialize_nonempty)
    show "demoSerialize matchedDoc \<noteq> []" by (rule demoSerialize_nonempty)
    show "parseJSON checkHost (demoSerialize statsDoc) = Some statsDoc"
      unfolding checkHost_def by (rule demoHost_parses_head)
    show "parseJSON checkHost (demoSerialize matchedDoc) = Some matchedDoc"
      unfolding checkHost_def by (rule demoHost_parses_next [OF stats_texts_differ])
    show "getProp statsDoc ''metadata'' = Some (JObj [(''version'', JStr ''1.0.0''), (''sessionCount'', JNum (Num 4))])"
      by (simp add: statsDoc_def field_def)
    show "getProp statsDoc ''sessions'' = Some (JArr ?elems)"
      by (simp add: statsDoc_def field_def)
    show "getProp matchedDoc ''metadata'' = Some (JObj [(''version'', JStr ''1.0.0''), (''sessionCount'', JNum (Num 4)),
                  (''dataChecksum'', JStr (generateChecksum (demoSerialize (JArr ?elems))))])"
      by (simp add: matchedDoc_def field_def del: demoSerialize.simps)
    show "getProp matchedDoc ''sessions'' = Some (JArr ?elems)"
      by (simp add: matchedDoc_def field_def del: demoSerialize.simps)
    show "mapM (revive checkHost) ?elems = Some statsRevived"
      unfolding checkHost_def by (rule stats_elems_revived)
    show "getProp (JObj [(''version'', JStr ''1.0.0''), (''sessionCount'', JNum (Num 4)),
                  (''dataChecksum'', JStr (generateChecksum (demoSerialize (JArr ?elems))))]) ''dataChecksum'' =
          Some (JStr (generateChecksum (JSON_stringify checkHost (JArr ?elems))))"
      unfolding checkHost_def stringify_stats_elems by (simp add: field_def del: demoSerialize.simps)
  qed (simp_all add: field_def)
  then show ?thesis
    unfolding statsRevived_valid statsRevived_no_warnings stats_asSession
    by (simp add: statsWorld_def worldWith_def)
qed

subsection \<open>loadSessions: migration of the legacy item\<close>

lemma migrate_absent:
  "present (items w LEGACY_SESSIONS_KEY) = None \<Longrightarrow> migrateLegacyData h w = ([], w)"
  by (simp add: migrateLegacyData_def getItem_def)

lemma migrate_parsed:
  assumes "items w LEGACY_SESSIONS_KEY = Some legacy" and "legacy \<noteq> []"
    and "parseJSON h legacy = Some (JArr elems)" and "mapM (revive h) elems = Some ms"
  shows "fst (migrateLegacyData h w) = map asSession (validOnly h ms)"
    and "items (snd (migrateLegacyData h w)) = (items w)(LEGACY_SESSIONS_KEY := None)"
    and "quota (snd (migrateLegacyData h w)) = quota w"
  using assms
  by (simp_all add: migrateLegacyData_def getItem_def reviveAll_def Let_def removeItem_def warn_def)

lemma save_failure_items:
  "fst (saveSessions h ss w) = Inl e \<Longrightarrow> 16 \<le> quota w \<Longrightarrow>
     items (snd (saveSessions h ss w)) = items (probed w)"
  by (simp add: saveSessions_eq Let_def warn_def split: if_splits)

lemma save_quota_exceeded:
  "quota w < length (JSON_stringify h (storageData h ss)) \<Longrightarrow> \<exists>e. fst (saveSessions h ss w) = Inl e"
  by (simp add: saveSessions_eq Let_def)

text \<open>
  C3 does not hold of the code. \<open>migrateLegacyData\<close> removes the legacy key itself
  (line 196), so \<open>loadSessions\<close> calls \<open>saveSessions\<close> (line 219) in a world where the
  legacy key is gone and nothing is stored under the storage key. When that write is
  rejected (here: the text is longer than the quota), the \<open>catch\<close> of \<open>loadSessions\<close>
  calls \<open>migrateLegacyData\<close> again, which finds no legacy item: the call returns no
  session, and the migrated sessions are under neither key.
\<close>

theorem failed_write_loses_migrated_sessions:
  assumes "16 \<le> quota w" and "present (items w STORAGE_KEY) = None"
    and "items w LEGACY_SESSIONS_KEY = Some legacy" and "legacy \<noteq> []"
    and "parseJSON h legacy = Some (JArr elems)" and "mapM (revive h) elems = Some ms"
    and "validOnly h ms \<noteq> []"
    and "quota w < length (JSON_stringify h (storageData h (map asSession (validOnly h ms))))"
  shows "fst (migrateLegacyData h (probed w)) = map asSession (validOnly h ms)
       \<and> items (snd (migrateLegacyData h (probed w))) LEGACY_SESSIONS_KEY = None
       \<and> items (snd (migrateLegacyData h (probed w))) STORAGE_KEY = items w STORAGE_KEY
       \<and> fst (loadSessions h w) = []
       \<and> items (snd (loadSessions h w)) LEGACY_SESSIONS_KEY = None
       \<and> items (snd (loadSessions h w)) STORAGE_KEY = items w STORAGE_KEY"
proof -
  obtain migrated w1 where m: "migrateLegacyData h (probed w) = (migrated, w1)"
    by (cases "migrateLegacyData h (probed w)")
  have leg: "items (probed w) LEGACY_SESSIONS_KEY = Some legacy"
    using assms(3) by (simp add: probed_simps)
  note mp = migrate_parsed [OF leg assms(4-6)]
  have migrated: "migrated = map asSession (validOnly h ms)" using mp(1) m by simp
  have items1: "items w1 = (items (probed w))(LEGACY_SESSIONS_KEY := None)" using mp(2) m by simp
  have quota1: "quota w1 = quota w" using mp(3) m by (simp add: probed_simps)
  obtain r w2 where s: "saveSessions h migrated w1 = (r, w2)"
    by (cases "saveSessions h migrated w1")
  obtain e where e: "r = Inl e"
    using save_quota_exceeded [of w1 h migrated] assms(8) s quota1 migrated by auto
  have items2: "items w2 = items (probed w1)"
    using save_failure_items [of h migrated w1 e] s e quota1 assms(1) by simp
  have gone: "present (items (logError ''Failed to load sessions:'' w2) LEGACY_SESSIONS_KEY) = None"
    by (simp add: logError_def items2 items1 probed_def LEGACY_SESSIONS_KEY_def)
  have load: "loadSessions h w = ([], logError ''Failed to load sessions:'' w2)"
    using assms(1,2,7) m s e migrated migrate_absent [OF gone, of h]
    by (simp add: loadSessions_def isStorageAvailable_probed getItem_def probed_simps)
  show ?thesis
    using m migrated items1 load items2
    by (simp add: logError_def probed_def LEGACY_SESSIONS_KEY_def STORAGE_KEY_def)
qed

lemma s1_migrated:
  "map asSession (validOnly h [toObj s1Session @ [(''endTime'', JUndefined)]]) = [s1Session]"
  unfolding s1_valid by (simp add: asSession_revived s1Session_def)

lemma s1_text_long:
  "20 < length (JSON_stringify (demoHost ds) (storageData (demoHost ds) [s1Session]))"
  by (simp add: JSON_stringify_def storageData_def sessionsValue_def toObj_def s1Session_def
        demoHost_def quote_def)

theorem failed_write_loses_migrated_sessions_witness:
  "fst (migrateLegacyData (demoHost [legacyDoc]) (probed legacyWorld)) = [s1Session]
   \<and> fst (loadSessions (demoHost [legacyDoc]) legacyWorld) = []
   \<and> items (snd (loadSessions (demoHost [legacyDoc]) legacyWorld)) LEGACY_SESSIONS_KEY = None
   \<and> items (snd (loadSessions (demoHost [legacyDoc]) legacyWorld)) STORAGE_KEY = None"
proof -
  have "fst (migrateLegacyData (demoHost [legacyDoc]) (probed legacyWorld)) =
          map asSession (validOnly (demoHost [legacyDoc]) [toObj s1Session @ [(''endTime'', JUndefined)]])
       \<and> items (snd (migrateLegacyData (demoHost [legacyDoc]) (probed legacyWorld))) LEGACY_SESSIONS_KEY = None
       \<and> items (snd (migrateLegacyData (demoHost [legacyDoc]) (probed legacyWorld))) STORAGE_KEY =
           items legacyWorld STORAGE_KEY
       \<and> fst (loadSessions (demoHost [legacyDoc]) legacyWorld) = []
       \<and> items (snd (loadSessions (demoHost [legacyDoc]) legacyWorld)) LEGACY_SESSIONS_KEY = None
       \<and> items (snd (loadSessions (demoHost [legacyDoc]) legacyWorld)) STORAGE_KEY = items legacyWorld STORAGE_KEY"
  proof (rule failed_write_loses_migrated_sessions [where legacy = "demoSerialize legacyDoc"
        and elems = "[sessionJSON ''s1'' ''T1699952400000'' True]"])
    show "16 \<le> quota legacyWorld" by (simp add: legacyWorld_def worldWith_def)
    show "present (items legacyWorld STORAGE_KEY) = None"
      by (simp add: legacyWorld_def worldWith_def STORAGE_KEY_def LEGACY_SESSIONS_KEY_def)
    show "items legacyWorld LEGACY_SESSIONS_KEY = Some (demoSerialize legacyDoc)"
      by (simp add: legacyWorld_def worldWith_def)
    show "demoSerialize legacyDoc \<noteq> []" by (rule demoSerialize_nonempty)
    show "parseJSON (demoHost [legacyDoc]) (demoSerialize legacyDoc) =
            Some (JArr [sessionJSON ''s1'' ''T1699952400000'' True])"
      using demoHost_parses_head [of legacyDoc "[]"] by (simp add: legacyDoc_def del: demoSerialize.simps)
    show "mapM (revive (demoHost [legacyDoc])) [sessionJSON ''s1'' ''T1699952400000'' True] =
            Some [toObj s1Session @ [(''endTime'', JUndefined)]]"
      by (simp add: revive_sessionJSON [OF demoHost_dateParse] digits_eval s1Session_def)
    show "validOnly (demoHost [legacyDoc]) [toObj s1Session @ [(''endTime'', JUndefined)]] \<noteq> []"
      unfolding s1_valid by simp
    show "quota legacyWorld < length (JSON_stringify (demoHost [legacyDoc])
            (storageData (demoHost [legacyDoc])
               (map asSession (validOnly (demoHost [legacyDoc]) [toObj s1Session @ [(''endTime'', JUndefined)]]))))"
      unfolding s1_migrated using s1_text_long [of "[legacyDoc]"]
      by (simp add: legacyWorld_def worldWith_def)
  qed
  then show ?thesis
    unfolding s1_migrated
    by (simp add: legacyWorld_def worldWith_def STORAGE_KEY_def LEGACY_SESSIONS_KEY_def)
qed

subsection \<open>saveSessions then loadSessions\<close>

lemma field_setProp: "field (setProp ob k v) k' = (if k' = k then v else field ob k')"
  by (induction ob k v rule: setProp.induct) (auto simp: field_def)

lemma validate_duration_error:
  "typeof (field ob ''duration'') \<noteq> ''number'' \<Longrightarrow> errorsOnly (validateSession h ob r a) \<noteq> []"
  by (simp add: validateSession_def Let_def errorsOnly_def)

lemma revive_obj:
  "revive h (JObj kvs) =
     Some (setProp (setProp kvs ''startTime'' (JDate (newDate h (field kvs ''startTime'')))) ''endTime''
             (if truthy (field kvs ''endTime'') then JDate (newDate h (field kvs ''endTime'')) else JUndefined))"
  by (simp add: revive_def Let_def)

lemma toJSON_toObj_duration:
  "toJSON h (JObj (toObj s)) = JObj kvs \<Longrightarrow> field kvs ''duration'' = toJSON h (JNum (duration s))"
  by (cases "endTime s") (auto simp: toObj_def field_def)

lemma toJSON_nonfinite: "\<forall>r. n \<noteq> Num r \<Longrightarrow> toJSON h (JNum n) = JNull"
  by (cases n) simp_all

lemma save_valid_world:
  assumes "saveErrors h ss = []" and "16 \<le> quota w"
    and "length (JSON_stringify h (storageData h ss)) \<le> quota w"
  shows "quota (snd (saveSessions h ss w)) = quota w"
  using assms by (simp add: saveSessions_eq Let_def warn_def probed_def)

text \<open>
  C2 does not hold of the code. A session whose \<open>duration\<close> is \<open>Infinity\<close> or \<open>NaN\<close> has no
  issue of severity error (\<open>duration <= 0\<close> is false), so \<open>saveSessions\<close> accepts it;
  \<open>JSON.stringify\<close> writes the duration as \<open>null\<close>, and \<open>loadSessions\<close> then drops the
  record: saving the one-element list and loading returns the empty list. The
  hypotheses are that the store accepts the write and that \<open>JSON.parse\<close> reads back what
  \<open>JSON.stringify\<close> wrote.
\<close>

theorem nonfinite_duration_is_dropped:
  assumes "16 \<le> quota w"
    and "errorsOnly (validateSession h (toObj s) None False) = []"
    and "\<forall>r. duration s \<noteq> Num r"
    and "length (JSON_stringify h (storageData h [s])) \<le> quota w"
    and "JSON_stringify h (storageData h [s]) \<noteq> []"
    and "parseJSON h (JSON_stringify h (storageData h [s])) = Some (toJSON h (storageData h [s]))"
  shows "fst (saveSessions h [s] w) = Inr ()
       \<and> items (snd (saveSessions h [s] w)) STORAGE_KEY = Some (JSON_stringify h (storageData h [s]))
       \<and> fst (loadSessions h (snd (saveSessions h [s] w))) = []"
proof -
  let ?text = "JSON_stringify h (storageData h [s])"
  let ?w = "snd (saveSessions h [s] w)"
  have none: "saveErrors h [s] = []" using assms(2) by (simp add: saveErrors_empty_iff)
  note saved = saveSessions_valid [OF none assms(1,4)]
  have q: "16 \<le> quota ?w" using save_valid_world [OF none assms(1,4)] assms(1) by simp
  have it: "items ?w STORAGE_KEY = Some ?text" by (simp add: saved(2))
  obtain kvs where kvs: "toJSON h (JObj (toObj s)) = JObj kvs" by simp
  obtain ob where ob: "revive h (JObj kvs) = Some ob" by (simp add: revive_obj)
  have dur: "field ob ''duration'' = JNull"
    using ob toJSON_toObj_duration [OF kvs] toJSON_nonfinite [OF assms(3)]
    by (auto simp: revive_obj field_setProp)
  have bad: "hasErrors h (0, ob)"
    unfolding hasErrors_def using validate_duration_error [of ob h] dur by simp
  have meta: "getProp (toJSON h (storageData h [s])) ''metadata'' =
     Some (JObj [(''version'', JStr CURRENT_VERSION),
                 (''lastModified'', JStr (toISOString h (now h))),
                 (''sessionCount'', JNum (Num (of_nat (length [s])))),
                 (''dataChecksum'',
                    JStr (generateChecksum (serialize h (JArr (map (\<lambda>s. toJSON h (JObj (toObj s))) [s])))))])"
    and sess: "getProp (toJSON h (storageData h [s])) ''sessions'' =
       Some (JArr (map (\<lambda>s. toJSON h (JObj (toObj s))) [s]))"
    using stored_document [of h "[s]"] by blast+
  have p: "parseStored h ?text = Some (JObj [(''version'', JStr CURRENT_VERSION),
                 (''lastModified'', JStr (toISOString h (now h))),
                 (''sessionCount'', JNum (Num (of_nat (length [s])))),
                 (''dataChecksum'',
                    JStr (generateChecksum (serialize h (JArr (map (\<lambda>s. toJSON h (JObj (toObj s))) [s])))))],
               JArr [JObj kvs], [ob])"
    by (rule parseStored_envelope [OF assms(6) meta _ _ _]) (use sess kvs ob in simp_all)
  have "fst (loadSessions h ?w) = map asSession (validOnly h [ob])"
    using loadSessions_stored [OF q it assms(5) p, of "JStr (generateChecksum (serialize h (JArr (map (\<lambda>s. toJSON h (JObj (toObj s))) [s]))))"]
    by (simp add: field_def)
  also have "\<dots> = []" using bad by (simp add: validOnly_def indexed_Nil indexed_Cons)
  finally show ?thesis using saved(1) it by simp
qed

lemma toJSON_host: "toISOString h = toISOString h' \<Longrightarrow> toJSON h v = toJSON h' v"
  by (induction h v rule: toJSON.induct) (auto simp: case_prod_beta)

lemma toJSON_demoHost: "toJSON (demoHost ds) v = toJSON (demoHost []) v"
  by (rule toJSON_host) (simp add: demoHost_def)

lemma demoHost_fields:
  "serialize (demoHost ds) = demoSerialize" "now (demoHost ds) = 1700000000000"
  by (simp_all add: demoHost_def)

lemma storageData_demoHost: "storageData (demoHost ds) ss = storageData (demoHost []) ss"
  by (simp add: storageData_def JSON_stringify_def toJSON_demoHost [of ds] demoHost_fields)

lemma stringify_demoHost: "JSON_stringify (demoHost ds) v = demoSerialize (toJSON (demoHost []) v)"
  by (simp add: JSON_stringify_def toJSON_demoHost [of ds] demoHost_fields)

lemma infSession_valid: "errorsOnly (validateSession h (toObj infSession) r False) = []"
  by (simp add: validate_typed infSession_def mathSession_def trim_def isWhiteSpace_def)

lemma infSession_text_fits:
  "length (JSON_stringify (demoHost ds) (storageData (demoHost ds) [infSession])) \<le> 100000"
  by (simp add: JSON_stringify_def storageData_def sessionsValue_def toObj_def infSession_def
        mathSession_def demo_defs string_eval store_defs generateChecksum_def)

theorem nonfinite_duration_is_dropped_witness:
  "errorsOnly (validateSession infHost (toObj infSession) None False) = []
   \<and> fst (saveSessions infHost [infSession] (emptyWorld 100000)) = Inr ()
   \<and> fst (loadSessions infHost (snd (saveSessions infHost [infSession] (emptyWorld 100000)))) = []"
proof -
  have "fst (saveSessions infHost [infSession] (emptyWorld 100000)) = Inr ()
       \<and> items (snd (saveSessions infHost [infSession] (emptyWorld 100000))) STORAGE_KEY =
           Some (JSON_stringify infHost (storageData infHost [infSession]))
       \<and> fst (loadSessions infHost (snd (saveSessions infHost [infSession] (emptyWorld 100000)))) = []"
  proof (rule nonfinite_duration_is_dropped)
    show "16 \<le> quota (emptyWorld 100000)" by (simp add: emptyWorld_def)
    show "errorsOnly (validateSession infHost (toObj infSession) None False) = []"
      by (rule infSession_valid)
    show "\<forall>r. duration infSession \<noteq> Num r" by (simp add: infSession_def)
    show "length (JSON_stringify infHost (storageData infHost [infSession])) \<le> quota (emptyWorld 100000)"
      unfolding infHost_def using infSession_text_fits by (simp add: emptyWorld_def)
    show "JSON_stringify infHost (storageData infHost [infSession]) \<noteq> []"
      unfolding infHost_def stringify_demoHost by (rule demoSerialize_nonempty)
    show "parseJSON infHost (JSON_stringify infHost (storageData infHost [infSession])) =
            Some (toJSON infHost (storageData infHost [infSession]))"
      unfolding infHost_def stringify_demoHost storageData_demoHost [of "[_]"] toJSON_demoHost [of "[_]"]
      by (rule demoHost_parses_head)
  qed
  then show ?thesis using infSession_valid by simp
qed

subsection \<open>saveSessions then loadSessions: finite durations\<close>

lemma asSession_toObj: "asSession (toObj s) = s"
  by (cases "endTime s") (simp_all add: asSession_def field_toObj)

lemma asSession_fields:
  assumes "field ob ''id'' = field ob' ''id''" "field ob ''subject'' = field ob' ''subject''"
    "field ob ''duration'' = field ob' ''duration''" "field ob ''startTime'' = field ob' ''startTime''"
    "field ob ''endTime'' = field ob' ''endTime''" "field ob ''completed'' = field ob' ''completed''"
  shows "asSession ob = asSession ob'"
  unfolding asSession_def assms ..

lemma validOnly_all:
  assumes "\<forall>p \<in> set (indexed xs). \<not> hasErrors h p"
  shows "validOnly h xs = xs"
proof -
  have "filter (\<lambda>p. \<not> hasErrors h p) (indexed xs) = indexed xs"
    using assms by (simp add: filter_id_conv)
  then show ?thesis by (simp add: validOnly_def indexed_def)
qed

lemma invalidWarnings_none:
  assumes "\<forall>p \<in> set (indexed xs). \<not> hasErrors h p"
  shows "invalidSessionWarnings h xs = []"
  using assms by (simp add: invalidSessionWarnings_def filter_empty_conv)

lemma mapM_map:
  "(\<forall>x \<in> set xs. f (g x) = Some (k x)) \<Longrightarrow> mapM f (map g xs) = Some (map k xs)"
  by (induction xs) simp_all

lemma revive_stored: "revive h (toJSON h (JObj (toObj s))) = Some (reloaded h s)"
  by (simp add: reloaded_def revive_obj)

lemma reloaded_fields:
  assumes "duration s = Num r" and "startTime s = Some t"
    and "dateParse h (toISOString h t) = Some t"
    and "\<forall>e. endTime s = Some (Some e) \<longrightarrow> toISOString h e \<noteq> [] \<and> dateParse h (toISOString h e) = Some e"
    and "endTime s \<noteq> Some None"
  shows "field (reloaded h s) ''id'' = field (toObj s) ''id''"
    and "field (reloaded h s) ''subject'' = field (toObj s) ''subject''"
    and "field (reloaded h s) ''duration'' = field (toObj s) ''duration''"
    and "field (reloaded h s) ''startTime'' = field (toObj s) ''startTime''"
    and "field (reloaded h s) ''endTime'' = field (toObj s) ''endTime''"
    and "field (reloaded h s) ''completed'' = field (toObj s) ''completed''"
proof -
  consider (none) "endTime s = None" | (some) e where "endTime s = Some (Some e)"
    using assms(5) by (cases "endTime s") auto
  then have "field (reloaded h s) ''id'' = field (toObj s) ''id''
    \<and> field (reloaded h s) ''subject'' = field (toObj s) ''subject''
    \<and> field (reloaded h s) ''duration'' = field (toObj s) ''duration''
    \<and> field (reloaded h s) ''startTime'' = field (toObj s) ''startTime''
    \<and> field (reloaded h s) ''endTime'' = field (toObj s) ''endTime''
    \<and> field (reloaded h s) ''completed'' = field (toObj s) ''completed''"
  proof cases
    case none
    then show ?thesis
      using assms(1-3)
      by (simp add: reloaded_def revive_obj field_setProp toObj_def field_def)
  next
    case some
    then show ?thesis
      using assms(1-4)
      by (simp add: reloaded_def revive_obj field_setProp toObj_def field_def)
  qed
  then show "field (reloaded h s) ''id'' = field (toObj s) ''id''"
    and "field (reloaded h s) ''subject'' = field (toObj s) ''subject''"
    and "field (reloaded h s) ''duration'' = field (toObj s) ''duration''"
    and "field (reloaded h s) ''startTime'' = field (toObj s) ''startTime''"
    and "field (reloaded h s) ''endTime'' = field (toObj s) ''endTime''"
    and "field (reloaded h s) ''completed'' = field (toObj s) ''completed''"
    by simp_all
qed

lemma reloaded_like_saved:
  assumes "errorsOnly (validateSession h (toObj s) None False) = []" and "duration s = Num r"
    and "\<forall>t. startTime s = Some t \<longrightarrow> roundTrips h t"
    and "\<forall>e. endTime s = Some (Some e) \<longrightarrow> roundTrips h e"
  shows "\<not> hasErrors h (i, reloaded h s)" and "asSession (reloaded h s) = s"
proof -
  from assms(1) have v: "startTime s \<noteq> None" "endTime s \<noteq> Some None"
    by (simp_all add: validate_typed)
  then obtain t where t: "startTime s = Some t" by auto
  have p: "dateParse h (toISOString h t) = Some t"
    using assms(3) t by (simp add: roundTrips_def)
  have e: "\<forall>e. endTime s = Some (Some e) \<longrightarrow> toISOString h e \<noteq> [] \<and> dateParse h (toISOString h e) = Some e"
    using assms(4) by (simp add: roundTrips_def)
  note f = reloaded_fields [OF assms(2) t p e v(2)]
  have "validateSession h (reloaded h s) (Some (i + 1)) False = validateSession h (toObj s) (Some (i + 1)) False"
    by (rule validate_fields [OF f])
  moreover have "errorsOnly (validateSession h (toObj s) (Some (i + 1)) False) = []"
    using assms(1) errorsOnly_row by blast
  ultimately show "\<not> hasErrors h (i, reloaded h s)" by (simp add: hasErrors_def)
  have "asSession (reloaded h s) = asSession (toObj s)" by (rule asSession_fields [OF f])
  then show "asSession (reloaded h s) = s" by (simp add: asSession_toObj)
qed

text \<open>
  The round trip where C2 does hold. If every session of the list has no issue of
  severity error and a finite duration, the store accepts the write, \<open>JSON.parse\<close> reads
  back the document that \<open>JSON.stringify\<close> wrote, and \<open>new Date\<close> reads back the ISO
  string of each start and end time, then \<open>loadSessions\<close> after \<open>saveSessions\<close> returns
  the list that was saved: the same sessions in the same order.
\<close>

theorem save_then_load_finite:
  assumes "16 \<le> quota w"
    and "\<forall>s \<in> set ss. errorsOnly (validateSession h (toObj s) None False) = [] \<and> (\<exists>r. duration s = Num r)"
    and "\<forall>s \<in> set ss. (\<forall>t. startTime s = Some t \<longrightarrow> roundTrips h t)
                     \<and> (\<forall>e. endTime s = Some (Some e) \<longrightarrow> roundTrips h e)"
    and "length (JSON_stringify h (storageData h ss)) \<le> quota w"
    and "JSON_stringify h (storageData h ss) \<noteq> []"
    and "parseJSON h (JSON_stringify h (storageData h ss)) = Some (toJSON h (storageData h ss))"
  shows "fst (saveSessions h ss w) = Inr ()
       \<and> fst (loadSessions h (snd (saveSessions h ss w))) = ss"
proof -
  let ?text = "JSON_stringify h (storageData h ss)"
  let ?w = "snd (saveSessions h ss w)"
  let ?m = "JObj [(''version'', JStr CURRENT_VERSION),
                 (''lastModified'', JStr (toISOString h (now h))),
                 (''sessionCount'', JNum (Num (of_nat (length ss)))),
                 (''dataChecksum'',
                    JStr (generateChecksum (serialize h (JArr (map (\<lambda>s. toJSON h (JObj (toObj s))) ss)))))]"
  have none: "saveErrors h ss = []" using assms(2) by (simp add: saveErrors_empty_iff)
  note saved = saveSessions_valid [OF none assms(1,4)]
  have q: "16 \<le> quota ?w" using save_valid_world [OF none assms(1,4)] assms(1) by simp
  have it: "items ?w STORAGE_KEY = Some ?text" by (simp add: saved(2))
  have each: "\<And>s i. s \<in> set ss \<Longrightarrow> \<not> hasErrors h (i, reloaded h s) \<and> asSession (reloaded h s) = s"
  proof -
    fix s i assume s: "s \<in> set ss"
    then obtain r where "duration s = Num r" using assms(2) by blast
    then show "\<not> hasErrors h (i, reloaded h s) \<and> asSession (reloaded h s) = s"
      using reloaded_like_saved(1) [of h s r i] reloaded_like_saved(2) [of h s r] assms(2,3) s by blast
  qed
  have rev: "mapM (revive h) (map (\<lambda>s. toJSON h (JObj (toObj s))) ss) = Some (map (reloaded h) ss)"
  proof (rule mapM_map)
    show "\<forall>x \<in> set ss. revive h (toJSON h (JObj (toObj x))) = Some (reloaded h x)"
      by (intro ballI revive_stored)
  qed
  have meta: "getProp (toJSON h (storageData h ss)) ''metadata'' = Some ?m"
    and sess: "getProp (toJSON h (storageData h ss)) ''sessions'' =
       Some (JArr (map (\<lambda>s. toJSON h (JObj (toObj s))) ss))"
    using stored_document [of h ss] by blast+
  have p: "parseStored h ?text = Some (?m, JArr (map (\<lambda>s. toJSON h (JObj (toObj s))) ss), map (reloaded h) ss)"
    by (rule parseStored_envelope [OF assms(6) meta _ sess rev]) simp
  have ok: "\<forall>p \<in> set (indexed (map (reloaded h) ss)). \<not> hasErrors h p"
    using each by (auto simp: set_indexed)
  have "fst (loadSessions h ?w) = map asSession (validOnly h (map (reloaded h) ss))"
    using loadSessions_stored [OF q it assms(5) p, of "JStr (generateChecksum (serialize h (JArr (map (\<lambda>s. toJSON h (JObj (toObj s))) ss))))"]
    by (simp add: field_def)
  also have "\<dots> = map asSession (map (reloaded h) ss)" by (simp add: validOnly_all [OF ok])
  also have "\<dots> = ss" using each by (simp add: map_idI)
  finally show ?thesis using saved(1) by simp
qed

lemma demoHost_roundTrips_1000: "roundTrips (demoHost ds) 1000" "roundTrips (demoHost ds) 2000"
  by (simp_all add: roundTrips_def demoHost_def signedDecimal_def decimal_def digitChar_def
        digitsValue_def isDigit_def char_eq_char_of char_of_eq_char)

theorem save_then_load_finite_witness:
  "fst (saveSessions roundHost [mathSession] (emptyWorld 100000)) = Inr ()
   \<and> fst (loadSessions roundHost (snd (saveSessions roundHost [mathSession] (emptyWorld 100000)))) =
       [mathSession]"
proof (rule save_then_load_finite)
  show "16 \<le> quota (emptyWorld 100000)" by (simp add: emptyWorld_def)
  show "\<forall>s \<in> set [mathSession]. errorsOnly (validateSession roundHost (toObj s) None False) = []
          \<and> (\<exists>r. duration s = Num r)"
    by (simp add: mathSession_valid errorsOnly_def) (simp add: mathSession_def)
  show "\<forall>s \<in> set [mathSession]. (\<forall>t. startTime s = Some t \<longrightarrow> roundTrips roundHost t)
          \<and> (\<forall>e. endTime s = Some (Some e) \<longrightarrow> roundTrips roundHost e)"
    unfolding roundHost_def using demoHost_roundTrips_1000 by (simp add: mathSession_def)
  show "length (JSON_stringify roundHost (storageData roundHost [mathSession])) \<le> quota (emptyWorld 100000)"
    unfolding roundHost_def stringify_demoHost storageData_demoHost [of "[_]"]
    using mathSession_text_fits by (simp add: emptyWorld_def stringify_demoHost)
  show "JSON_stringify roundHost (storageData roundHost [mathSession]) \<noteq> []"
    unfolding roundHost_def stringify_demoHost by (rule demoSerialize_nonempty)
  show "parseJSON roundHost (JSON_stringify roundHost (storageData roundHost [mathSession])) =
          Some (toJSON roundHost (storageData roundHost [mathSession]))"
    unfolding roundHost_def stringify_demoHost storageData_demoHost [of "[_]"] toJSON_demoHost [of "[_]"]
    by (rule demoHost_parses_head)
qed

end
